theory Spec2Isabelle
  imports Main
begin

section \<open>Python values\<close>

text \<open>
  The program passes loosely typed dictionaries around (\<^verbatim>\<open>dict[str, Any]\<close>). A value
  of type \<^verbatim>\<open>Any\<close> is one of the values the program handles: \<^verbatim>\<open>None\<close>, a boolean,
  an integer, a float, a string, a list, a dictionary with string keys, or any other
  Python object.
  \<^item> A dictionary is an association list in insertion order (the order \<^verbatim>\<open>json.dumps\<close>
    prints); a lookup takes the first binding of a key.
  \<^item> A float is carried by the text \<^verbatim>\<open>json.dumps\<close> prints for it (its \<^verbatim>\<open>repr\<close>, or
    \<^verbatim>\<open>NaN\<close>, \<^verbatim>\<open>Infinity\<close>, \<^verbatim>\<open>-Infinity\<close>); the program never computes with one.
  \<^item> \<open>JOther\<close> is an object of any other class, carried by its \<^verbatim>\<open>repr\<close>: it cannot be
    subscripted or iterated, has no \<^verbatim>\<open>get\<close>, is true, and \<^verbatim>\<open>json.dumps\<close> cannot serialise
    it. The \<^verbatim>\<open>AnyUrl\<close> that \<^verbatim>\<open>model_dump()\<close> leaves in the result of a tool that returns
    a resource is such an object.
  \<^item> A string is a list of code points below 256; text beyond that range is outside the
    model (it changes only the escapes the encoder prints).
\<close>

datatype json =
    JNull
  | JBool bool
  | JInt int
  | JFloat string
  | JStr string
  | JList "json list"
  | JObj "(string \<times> json) list"
  | JOther string

type_synonym dict = "(string \<times> json) list"

text \<open>The exceptions the program can raise or let through.\<close>

datatype error =
    KeyError string
  | TypeError
  | AttributeError
  | RuntimeError string
  | ValueError string
  | ExternalError string

text \<open>Sequencing of computations that may raise: the first exception wins.\<close>

definition bindE :: "error + 'a \<Rightarrow> ('a \<Rightarrow> error + 'b) \<Rightarrow> error + 'b" where
  "bindE m f = (case m of Inl e \<Rightarrow> Inl e | Inr x \<Rightarrow> f x)"

text \<open>\<^verbatim>\<open>d[k]\<close> on a dictionary: \<^verbatim>\<open>KeyError\<close> when the key is absent.\<close>

definition dict_getitem :: "dict \<Rightarrow> string \<Rightarrow> error + json" where
  "dict_getitem d k = (case map_of d k of None \<Rightarrow> Inl (KeyError k) | Some v \<Rightarrow> Inr v)"

text \<open>\<^verbatim>\<open>d.get(k, default)\<close> on a dictionary.\<close>

definition dict_get :: "dict \<Rightarrow> string \<Rightarrow> json \<Rightarrow> json" where
  "dict_get d k dflt = (case map_of d k of None \<Rightarrow> dflt | Some v \<Rightarrow> v)"

text \<open>
  \<^verbatim>\<open>v[k]\<close> with a string key on a value of type \<^verbatim>\<open>Any\<close>: only a dictionary can be
  subscripted by a string; \<^verbatim>\<open>None\<close>, numbers, strings and lists raise \<^verbatim>\<open>TypeError\<close>.
\<close>

fun py_getitem :: "json \<Rightarrow> string \<Rightarrow> error + json" where
  "py_getitem (JObj d) k = dict_getitem d k"
| "py_getitem _ k = Inl TypeError"

text \<open>
  \<^verbatim>\<open>v.get(k, default)\<close> on a value of type \<^verbatim>\<open>Any\<close>: only a dictionary has the
  method; every other value raises \<^verbatim>\<open>AttributeError\<close>.
\<close>

fun py_get :: "json \<Rightarrow> string \<Rightarrow> json \<Rightarrow> error + json" where
  "py_get (JObj d) k dflt = Inr (dict_get d k dflt)"
| "py_get _ k dflt = Inl AttributeError"

text \<open>
  \<^verbatim>\<open>for x in v\<close>: a list yields its elements, a string its characters, a dictionary its
  keys; \<^verbatim>\<open>None\<close>, booleans and integers are not iterable.
\<close>

fun py_iter :: "json \<Rightarrow> error + json list" where
  "py_iter (JList xs) = Inr xs"
| "py_iter (JStr s) = Inr (map (\<lambda>c. JStr [c]) s)"
| "py_iter (JObj d) = Inr (map (\<lambda>kv. JStr (fst kv)) d)"
| "py_iter _ = Inl TypeError"

text \<open>Truth value of a Python object, as \<^verbatim>\<open>if v:\<close> and \<^verbatim>\<open>and\<close>/\<^verbatim>\<open>or\<close> test it.\<close>

fun truthy :: "json \<Rightarrow> bool" where
  "truthy JNull = False"
| "truthy (JBool b) = b"
| "truthy (JInt n) = (n \<noteq> 0)"
| "truthy (JFloat r) = (r \<noteq> ''0.0'' \<and> r \<noteq> ''-0.0'')"
| "truthy (JStr s) = (s \<noteq> [])"
| "truthy (JList xs) = (xs \<noteq> [])"
| "truthy (JObj d) = (d \<noteq> [])"
| "truthy (JOther r) = True"

text \<open>\<^verbatim>\<open>s += v\<close> for a string \<^verbatim>\<open>s\<close>: \<^verbatim>\<open>TypeError\<close> unless \<^verbatim>\<open>v\<close> is a string too.\<close>

fun str_iadd :: "string \<Rightarrow> json \<Rightarrow> error + string" where
  "str_iadd s (JStr t) = Inr (s @ t)"
| "str_iadd s _ = Inl TypeError"

subsection \<open>\<^verbatim>\<open>json.dumps\<close> with its default settings\<close>

text \<open>
  \<^verbatim>\<open>json.dumps\<close> raises \<^verbatim>\<open>TypeError\<close> when it meets an object it cannot serialise.
  The program also calls it with \<^verbatim>\<open>indent=2\<close>, for its log lines; the indentation
  changes the layout of the text and not whether the call raises, and the program prints
  that text and drops it.
\<close>

text \<open>The results of a list of computations, or the first exception among them.\<close>

fun sequenceE :: "(error + 'a) list \<Rightarrow> error + 'a list" where
  "sequenceE [] = Inr []"
| "sequenceE (m # ms) = bindE m (\<lambda>x. bindE (sequenceE ms) (\<lambda>xs. Inr (x # xs)))"

text \<open>\<^verbatim>\<open>sep.join(parts)\<close>.\<close>

fun join :: "string \<Rightarrow> string list \<Rightarrow> string" where
  "join sep [] = []"
| "join sep [x] = x"
| "join sep (x # y # ys) = x @ sep @ join sep (y # ys)"

definition hex_digit :: "nat \<Rightarrow> char" where
  "hex_digit n = ''0123456789abcdef'' ! (n mod 16)"

text \<open>
  The encoder escapes the quote, the backslash and every character outside the printable
  ASCII range (\<^verbatim>\<open>ensure_ascii=True\<close>).
\<close>

definition escape_char :: "char \<Rightarrow> string" where
  "escape_char c =
     (if c = CHR 0x22 then [CHR 0x5C, CHR 0x22]
      else if c = CHR 0x5C then [CHR 0x5C, CHR 0x5C]
      else if c = CHR 0x0A then [CHR 0x5C, CHR ''n'']
      else if c = CHR 0x0D then [CHR 0x5C, CHR ''r'']
      else if c = CHR 0x09 then [CHR 0x5C, CHR ''t'']
      else if c = CHR 0x08 then [CHR 0x5C, CHR ''b'']
      else if c = CHR 0x0C then [CHR 0x5C, CHR ''f'']
      else if (of_char c :: nat) < 32 \<or> 126 < (of_char c :: nat)
        then [CHR 0x5C, CHR ''u'', CHR ''0'', CHR ''0'',
              hex_digit (of_char c div 16), hex_digit (of_char c)]
      else [c])"

definition dumps_str :: "string \<Rightarrow> string" where
  "dumps_str s = [CHR 0x22] @ concat (map escape_char s) @ [CHR 0x22]"

function dumps_nat :: "nat \<Rightarrow> string" where
  "dumps_nat n =
     (if n < 10 then [hex_digit n] else dumps_nat (n div 10) @ [hex_digit (n mod 10)])"
  by pat_completeness auto
termination
  by (relation "measure id") auto

definition dumps_int :: "int \<Rightarrow> string" where
  "dumps_int i = (if i < 0 then ''-'' @ dumps_nat (nat (- i)) else dumps_nat (nat i))"

primrec json_dumps :: "json \<Rightarrow> error + string" where
  "json_dumps JNull = Inr ''null''"
| "json_dumps (JBool b) = Inr (if b then ''true'' else ''false'')"
| "json_dumps (JInt i) = Inr (dumps_int i)"
| "json_dumps (JFloat r) = Inr r"
| "json_dumps (JStr s) = Inr (dumps_str s)"
| "json_dumps (JList xs) =
     bindE (sequenceE (map json_dumps xs)) (\<lambda>parts.
       Inr (''['' @ join '', '' parts @ '']''))"
| "json_dumps (JObj d) =
     bindE (sequenceE
              (map (\<lambda>kv. bindE (snd kv) (\<lambda>v. Inr (dumps_str (fst kv) @ '': '' @ v)))
                 (map (map_prod id json_dumps) d))) (\<lambda>parts.
       Inr (''{'' @ join '', '' parts @ ''}''))"
| "json_dumps (JOther r) = Inl TypeError"

section \<open>The Claude API client (\<^verbatim>\<open>claude_client.py\<close>)\<close>

text \<open>The field \<^verbatim>\<open>self.model\<close> set by the constructor.\<close>

definition model :: string where
  "model = ''claude-sonnet-4-20250514''"

subsection \<open>\<^verbatim>\<open>convert_mcp_tools_to_claude_format\<close>\<close>

definition default_input_schema :: json where
  "default_input_schema = JObj [(''type'', JStr ''object''), (''properties'', JObj [])]"

text \<open>
  The loop over \<^verbatim>\<open>mcp_tools\<close>, with the list \<^verbatim>\<open>claude_tools\<close> built so far.
  \<^verbatim>\<open>mcp_tool["name"]\<close> raises \<^verbatim>\<open>KeyError\<close> on a tool without a name; the two
  other fields are read with \<^verbatim>\<open>.get\<close> and a default.
\<close>

fun convert_mcp_tools_loop :: "dict list \<Rightarrow> dict list \<Rightarrow> error + dict list" where
  "convert_mcp_tools_loop claude_tools [] = Inr claude_tools"
| "convert_mcp_tools_loop claude_tools (mcp_tool # rest) =
     bindE (dict_getitem mcp_tool ''name'') (\<lambda>name.
       convert_mcp_tools_loop
         (claude_tools @
            [[(''name'', name),
              (''description'', dict_get mcp_tool ''description'' (JStr [])),
              (''input_schema'', dict_get mcp_tool ''inputSchema'' default_input_schema)]])
         rest)"

definition convert_mcp_tools_to_claude_format :: "dict list \<Rightarrow> error + dict list" where
  "convert_mcp_tools_to_claude_format mcp_tools = convert_mcp_tools_loop [] mcp_tools"

subsection \<open>The request built by \<^verbatim>\<open>call_claude\<close>\<close>

text \<open>\<^verbatim>\<open>if tools:\<close> for \<^verbatim>\<open>tools: list | None\<close>: false for \<^verbatim>\<open>None\<close> and for the empty list.\<close>

fun tools_given :: "dict list option \<Rightarrow> bool" where
  "tools_given None = False"
| "tools_given (Some ts) = (ts \<noteq> [])"

definition call_claude_kwargs :: "dict list \<Rightarrow> dict list option \<Rightarrow> int \<Rightarrow> dict" where
  "call_claude_kwargs messages tools max_tokens =
     [(''model'', JStr model),
      (''max_tokens'', JInt max_tokens),
      (''messages'', JList (map JObj messages))]
     @ (case tools of
          None \<Rightarrow> []
        | Some ts \<Rightarrow> if ts \<noteq> [] then [(''tools'', JList (map JObj ts))] else [])"

text \<open>
  The log line \<^verbatim>\<open>[t['name'] for t in tools]\<close>, evaluated before the request is sent
  when tools are given: it raises \<^verbatim>\<open>KeyError\<close> on a tool without a name.
\<close>

fun tool_names :: "dict list \<Rightarrow> error + json list" where
  "tool_names [] = Inr []"
| "tool_names (t # ts) =
     bindE (dict_getitem t ''name'') (\<lambda>n. bindE (tool_names ts) (\<lambda>ns. Inr (n # ns)))"

definition log_tool_names :: "dict list option \<Rightarrow> error + unit" where
  "log_tool_names tools =
     (if tools_given tools
      then (case tools of
              None \<Rightarrow> Inr ()
            | Some ts \<Rightarrow> bindE (tool_names ts) (\<lambda>_. Inr ()))
      else Inr ())"

text \<open>
  What the Model Service returns: the fields \<^verbatim>\<open>call_claude\<close> reads from the SDK's
  response object, the content blocks and the usage already dumped to dictionaries
  (\<^verbatim>\<open>model_dump()\<close>). The log loop at the end of \<^verbatim>\<open>call_claude\<close> reads the SDK's
  typed blocks themselves (\<^verbatim>\<open>block.text\<close> is a string, \<^verbatim>\<open>block.input\<close> is parsed
  JSON), not these dictionaries; it is not part of the model.
\<close>

record response =
  resp_id :: json
  resp_type :: json
  resp_role :: json
  resp_content :: "dict list"
  resp_model :: json
  resp_stop_reason :: json
  resp_usage :: json

definition response_dict :: "response \<Rightarrow> dict" where
  "response_dict r =
     [(''id'', resp_id r),
      (''type'', resp_type r),
      (''role'', resp_role r),
      (''content'', JList (map JObj (resp_content r))),
      (''model'', resp_model r),
      (''stop_reason'', resp_stop_reason r),
      (''usage'', resp_usage r)]"

subsection \<open>\<^verbatim>\<open>extract_tool_calls\<close>\<close>

fun extract_tool_calls_loop :: "dict list \<Rightarrow> json list \<Rightarrow> error + dict list" where
  "extract_tool_calls_loop tool_calls [] = Inr tool_calls"
| "extract_tool_calls_loop tool_calls (block # rest) =
     bindE (py_getitem block ''type'') (\<lambda>ty.
       if ty = JStr ''tool_use'' then
         bindE (py_getitem block ''id'') (\<lambda>i.
         bindE (py_getitem block ''name'') (\<lambda>n.
         bindE (py_getitem block ''input'') (\<lambda>a.
           extract_tool_calls_loop
             (tool_calls @ [[(''id'', i), (''name'', n), (''input'', a)]]) rest)))
       else extract_tool_calls_loop tool_calls rest)"

definition extract_tool_calls :: "dict \<Rightarrow> error + dict list" where
  "extract_tool_calls resp =
     bindE (dict_getitem resp ''content'') (\<lambda>content.
     bindE (py_iter content) (extract_tool_calls_loop []))"

subsection \<open>\<^verbatim>\<open>format_tool_result_for_claude\<close>\<close>

text \<open>The loop over \<^verbatim>\<open>tool_result["content"]\<close>, with \<^verbatim>\<open>content_text\<close> so far.\<close>

fun content_text_loop :: "string \<Rightarrow> json list \<Rightarrow> error + string" where
  "content_text_loop content_text [] = Inr content_text"
| "content_text_loop content_text (content_item # rest) =
     bindE (py_get content_item ''type'' JNull) (\<lambda>ty.
       if ty = JStr ''text'' then
         bindE (py_get content_item ''text'' (JStr [])) (\<lambda>v.
         bindE (str_iadd content_text v) (\<lambda>content_text'.
           content_text_loop content_text' rest))
       else content_text_loop content_text rest)"

text \<open>
  The guard \<^verbatim>\<open>"content" in tool_result and tool_result["content"]\<close> skips the loop
  when the key is absent or its value is falsy.
\<close>

definition extract_content_text :: "dict \<Rightarrow> error + string" where
  "extract_content_text tool_result =
     (case map_of tool_result ''content'' of
        None \<Rightarrow> Inr []
      | Some c \<Rightarrow>
          if truthy c then bindE (py_iter c) (content_text_loop []) else Inr [])"

text \<open>
  \<^verbatim>\<open>content_text or json.dumps(tool_result)\<close>: the dump is taken, and may raise, only
  when the text is empty.
\<close>

definition format_tool_result_for_claude :: "json \<Rightarrow> dict \<Rightarrow> error + dict" where
  "format_tool_result_for_claude tool_call_id tool_result =
     bindE (extract_content_text tool_result) (\<lambda>content_text.
     bindE (if content_text \<noteq> [] then Inr content_text
            else json_dumps (JObj tool_result)) (\<lambda>content.
       Inr [(''type'', JStr ''tool_result''),
            (''tool_use_id'', tool_call_id),
            (''content'', JStr content)]))"

section \<open>The outside world\<close>

text \<open>
  The Tool Provider process, the MCP SDK's session and the Model Service are external.
  Every interaction with them is an event, recorded with its outcome; the outside world
  is a family of oracles that answer a call given the events so far, so that every answer
  may depend on everything that happened before it. The results of the SDK are taken
  after \<^verbatim>\<open>model_dump()\<close>, as dictionaries.
\<close>

datatype resource =
    StdioClient string
  | ClientSessionCtx

text \<open>
  Of the console output only the lines that carry the answer are events: a text block of
  the planning response printed when no tool was selected, and the final text.
\<close>

datatype printed =
    ClaudeText json
  | FinalText string

datatype event =
    Enter resource "error option"
  | Exit resource "error option"
  | Initialize "error + json"
  | ListTools "error + dict list"
  | CallTool json json "error + dict"
  | MessagesCreate dict "error + response"
  | Print printed

record env =
  api_key :: "string option"
  enter_context :: "event list \<Rightarrow> resource \<Rightarrow> error option"
  exit_context :: "event list \<Rightarrow> resource \<Rightarrow> error option"
  session_initialize :: "event list \<Rightarrow> error + json"
  session_list_tools :: "event list \<Rightarrow> error + dict list"
  session_call_tool :: "event list \<Rightarrow> json \<Rightarrow> json \<Rightarrow> error + dict"
  messages_create :: "event list \<Rightarrow> dict \<Rightarrow> error + response"

text \<open>
  The state of a run: the two fields of \<^verbatim>\<open>MCPClient\<close> (the exit stack holds the
  contexts entered and not yet exited, the latest first) and the events so far.
\<close>

datatype client_session = ClientSession

record state =
  session :: "client_session option"
  exit_stack :: "resource list"
  trace :: "event list"

definition initial_state :: state where
  "initial_state = \<lparr>session = None, exit_stack = [], trace = []\<rparr>"

text \<open>A step of the program: it may raise, and it changes the state.\<close>

type_synonym 'a io = "state \<Rightarrow> (error + 'a) \<times> state"

definition bindS :: "'a io \<Rightarrow> ('a \<Rightarrow> 'b io) \<Rightarrow> 'b io" where
  "bindS m f s = (case m s of (Inl e, s') \<Rightarrow> (Inl e, s') | (Inr x, s') \<Rightarrow> f x s')"

definition liftE :: "error + 'a \<Rightarrow> 'a io" where
  "liftE r s = (r, s)"

definition record_event :: "event \<Rightarrow> state \<Rightarrow> state" where
  "record_event ev s = s\<lparr>trace := trace s @ [ev]\<rparr>"

text \<open>
  \<^verbatim>\<open>AsyncExitStack.enter_async_context\<close>: the context is pushed only when entering it
  succeeded. \<^verbatim>\<open>AsyncExitStack.aclose\<close>: every context on the stack is exited, the latest
  first, also after an exit has raised; the exception of the last exit that raised is the
  one \<^verbatim>\<open>aclose\<close> raises.
\<close>

definition enter_async_context :: "env \<Rightarrow> resource \<Rightarrow> unit io" where
  "enter_async_context env r s =
     (let res = enter_context env (trace s) r;
          s' = record_event (Enter r res) s
      in case res of
           Some e \<Rightarrow> (Inl e, s')
         | None \<Rightarrow> (Inr (), s'\<lparr>exit_stack := r # exit_stack s'\<rparr>))"

fun run_exits :: "env \<Rightarrow> resource list \<Rightarrow> error option \<Rightarrow> event list
                    \<Rightarrow> error option \<times> event list" where
  "run_exits env [] pending tr = (pending, tr)"
| "run_exits env (r # rs) pending tr =
     (let res = exit_context env tr r
      in run_exits env rs (case res of Some e \<Rightarrow> Some e | None \<Rightarrow> pending)
           (tr @ [Exit r res]))"

definition aclose :: "env \<Rightarrow> unit io" where
  "aclose env s =
     (case run_exits env (exit_stack s) None (trace s) of
        (pending, tr) \<Rightarrow>
          ((case pending of Some e \<Rightarrow> Inl e | None \<Rightarrow> Inr ()),
           s\<lparr>exit_stack := [], trace := tr\<rparr>))"

section \<open>The MCP client (\<^verbatim>\<open>client.py\<close>)\<close>

definition perform_initialize :: "env \<Rightarrow> json io" where
  "perform_initialize env s =
     (let res = session_initialize env (trace s) in (res, record_event (Initialize res) s))"

text \<open>
  \<^verbatim>\<open>connect\<close>: the session is stored before the handshake; the log line after the
  handshake dumps the result.
\<close>

definition connect :: "env \<Rightarrow> string \<Rightarrow> json io" where
  "connect env server_script_path =
     bindS (enter_async_context env (StdioClient server_script_path)) (\<lambda>_.
     bindS (enter_async_context env ClientSessionCtx) (\<lambda>_.
     bindS (\<lambda>s. (Inr (), s\<lparr>session := Some ClientSession\<rparr>)) (\<lambda>_.
     bindS (perform_initialize env) (\<lambda>init_result.
     bindS (liftE (json_dumps init_result)) (\<lambda>_.
       liftE (Inr init_result))))))"

text \<open>
  The loop of \<^verbatim>\<open>list_tools\<close> over the tools received: its log lines dump the input
  schema of a tool when that schema is true.
\<close>

fun list_tools_loop :: "dict list \<Rightarrow> error + unit" where
  "list_tools_loop [] = Inr ()"
| "list_tools_loop (tool # rest) =
     bindE (case map_of tool ''inputSchema'' of
              None \<Rightarrow> Inr ()
            | Some schema \<Rightarrow>
                if truthy schema then bindE (json_dumps schema) (\<lambda>_. Inr ()) else Inr ())
       (\<lambda>_. list_tools_loop rest)"

definition perform_list_tools :: "env \<Rightarrow> dict list io" where
  "perform_list_tools env s =
     (let res = session_list_tools env (trace s) in (res, record_event (ListTools res) s))"

definition list_tools :: "env \<Rightarrow> dict list io" where
  "list_tools env s =
     (case session s of
        None \<Rightarrow> (Inl (RuntimeError ''Not connected to a server''), s)
      | Some _ \<Rightarrow>
          bindS (perform_list_tools env) (\<lambda>tools.
          bindS (liftE (list_tools_loop tools)) (\<lambda>_.
            liftE (Inr tools))) s)"

definition perform_call_tool :: "env \<Rightarrow> json \<Rightarrow> json \<Rightarrow> dict io" where
  "perform_call_tool env tool_name arguments s =
     (let res = session_call_tool env (trace s) tool_name arguments
      in (res, record_event (CallTool tool_name arguments res) s))"

text \<open>
  \<^verbatim>\<open>call_tool\<close>: a log line dumps the arguments before the request is sent, and
  another dumps the result after it came back; either may raise.
\<close>

definition call_tool :: "env \<Rightarrow> json \<Rightarrow> json \<Rightarrow> dict io" where
  "call_tool env tool_name arguments s =
     (case session s of
        None \<Rightarrow> (Inl (RuntimeError ''Not connected to a server''), s)
      | Some _ \<Rightarrow>
          bindS (liftE (json_dumps arguments)) (\<lambda>_.
          bindS (perform_call_tool env tool_name arguments) (\<lambda>result_dict.
          bindS (liftE (json_dumps (JObj result_dict))) (\<lambda>_.
            liftE (Inr result_dict)))) s)"

definition cleanup :: "env \<Rightarrow> unit io" where
  "cleanup env = aclose env"

section \<open>\<^verbatim>\<open>call_claude\<close>\<close>

definition perform_messages_create :: "env \<Rightarrow> dict \<Rightarrow> response io" where
  "perform_messages_create env kwargs s =
     (let res = messages_create env (trace s) kwargs
      in (res, record_event (MessagesCreate kwargs res) s))"

definition call_claude :: "env \<Rightarrow> dict list \<Rightarrow> dict list option \<Rightarrow> int \<Rightarrow> dict io" where
  "call_claude env messages tools max_tokens =
     bindS (liftE (log_tool_names tools)) (\<lambda>_.
     bindS (perform_messages_create env (call_claude_kwargs messages tools max_tokens))
       (\<lambda>resp. liftE (Inr (response_dict resp))))"

section \<open>The orchestrator (\<^verbatim>\<open>orchestrator.py\<close>)\<close>

text \<open>\<^verbatim>\<open>Path(__file__).parent / "simple_server.py"\<close>.\<close>

definition server_path :: string where
  "server_path = ''simple_server.py''"

definition print_line :: "printed \<Rightarrow> unit io" where
  "print_line out s = (Inr (), record_event (Print out) s)"

text \<open>
  The loop printing the text blocks of the planning response when no tool was selected.
\<close>

fun print_text_blocks :: "json list \<Rightarrow> unit io" where
  "print_text_blocks [] = liftE (Inr ())"
| "print_text_blocks (block # rest) =
     bindS (liftE (py_getitem block ''type'')) (\<lambda>ty.
       if ty = JStr ''text'' then
         bindS (liftE (py_getitem block ''text'')) (\<lambda>t.
         bindS (print_line (ClaudeText t)) (\<lambda>_.
           print_text_blocks rest))
       else print_text_blocks rest)"

text \<open>
  The loop printing the selected tool calls: it reads the name of each and dumps its
  input.
\<close>

fun log_tool_calls :: "dict list \<Rightarrow> error + unit" where
  "log_tool_calls [] = Inr ()"
| "log_tool_calls (tool_call # rest) =
     bindE (dict_getitem tool_call ''name'') (\<lambda>_.
     bindE (dict_getitem tool_call ''input'') (\<lambda>input.
     bindE (json_dumps input) (\<lambda>_.
       log_tool_calls rest)))"

text \<open>Phase 4: the loop over \<^verbatim>\<open>tool_calls\<close>, with \<^verbatim>\<open>tool_results\<close> so far.\<close>

fun execute_tool_calls :: "env \<Rightarrow> dict list \<Rightarrow> dict list \<Rightarrow> dict list io" where
  "execute_tool_calls env tool_results [] = liftE (Inr tool_results)"
| "execute_tool_calls env tool_results (tool_call # rest) =
     bindS (liftE (dict_getitem tool_call ''name'')) (\<lambda>name.
     bindS (liftE (dict_getitem tool_call ''input'')) (\<lambda>input.
     bindS (call_tool env name input) (\<lambda>mcp_result.
     bindS (liftE (dict_getitem tool_call ''id'')) (\<lambda>i.
     bindS (liftE (format_tool_result_for_claude i mcp_result)) (\<lambda>claude_result.
       execute_tool_calls env (tool_results @ [claude_result]) rest)))))"

text \<open>Phase 5: the loop building \<^verbatim>\<open>final_text\<close> from the synthesis response.\<close>

fun final_text_loop :: "string \<Rightarrow> json list \<Rightarrow> error + string" where
  "final_text_loop final_text [] = Inr final_text"
| "final_text_loop final_text (block # rest) =
     bindE (py_getitem block ''type'') (\<lambda>ty.
       if ty = JStr ''text'' then
         bindE (py_getitem block ''text'') (\<lambda>t.
         bindE (str_iadd final_text t) (\<lambda>final_text'.
           final_text_loop final_text' rest))
       else final_text_loop final_text rest)"

text \<open>The body of the \<^verbatim>\<open>try\<close> block.\<close>

definition workflow_body :: "env \<Rightarrow> string \<Rightarrow> unit io" where
  "workflow_body env user_query =
     bindS (connect env server_path) (\<lambda>init_result.
     bindS (list_tools env) (\<lambda>mcp_tools.
     bindS (liftE (convert_mcp_tools_to_claude_format mcp_tools)) (\<lambda>claude_tools.
     bindS (call_claude env
              [[(''role'', JStr ''user''), (''content'', JStr user_query)]]
              (Some claude_tools) 1024) (\<lambda>planning_response.
     bindS (liftE (extract_tool_calls planning_response)) (\<lambda>tool_calls.
     if tool_calls = [] then
       bindS (liftE (dict_getitem planning_response ''content'')) (\<lambda>content.
       bindS (liftE (py_iter content)) (\<lambda>blocks.
         print_text_blocks blocks))
     else
       bindS (liftE (log_tool_calls tool_calls)) (\<lambda>_.
       bindS (execute_tool_calls env [] tool_calls) (\<lambda>tool_results.
       bindS (liftE (dict_getitem planning_response ''content'')) (\<lambda>planning_content.
       bindS (call_claude env
                [[(''role'', JStr ''user''), (''content'', JStr user_query)],
                 [(''role'', JStr ''assistant''), (''content'', planning_content)],
                 [(''role'', JStr ''user''), (''content'', JList (map JObj tool_results))]]
                (Some claude_tools) 1024) (\<lambda>synthesis_response.
       bindS (liftE (dict_getitem synthesis_response ''content'')) (\<lambda>content.
       bindS (liftE (py_iter content)) (\<lambda>blocks.
       bindS (liftE (final_text_loop [] blocks)) (\<lambda>final_text.
         print_line (FinalText final_text)))))))))))))"

text \<open>
  \<^verbatim>\<open>run_poc_workflow\<close>: the API key is checked before the clients exist; the body runs
  under \<^verbatim>\<open>try\<close>, and \<^verbatim>\<open>finally\<close> calls \<^verbatim>\<open>cleanup\<close> however the body ended. An
  exception raised by \<^verbatim>\<open>cleanup\<close> replaces the outcome of the body.
\<close>

definition run_poc_workflow :: "env \<Rightarrow> string \<Rightarrow> (error + unit) \<times> state" where
  "run_poc_workflow env user_query =
     (if api_key env = None \<or> api_key env = Some []
      then (Inl (ValueError ''ANTHROPIC_API_KEY not found in .env.local''), initial_state)
      else
        (case workflow_body env user_query initial_state of
           (outcome, s) \<Rightarrow>
             (case cleanup env s of
                (Inl e, s') \<Rightarrow> (Inl e, s')
              | (Inr _, s') \<Rightarrow> (outcome, s'))))"

section \<open>Notions used in the statements\<close>

subsection \<open>Well-formed inputs\<close>

text \<open>
  A capability descriptor has a name; its description and its input schema may be
  missing.
\<close>

definition has_name :: "dict \<Rightarrow> bool" where
  "has_name d = (map_of d ''name'' \<noteq> None)"

text \<open>
  What the translation of one descriptor looks like: the three keys in this order, the
  name kept, and each of the two other fields either kept or replaced by its default.
\<close>

definition translates :: "dict \<Rightarrow> dict \<Rightarrow> bool" where
  "translates d t =
     (map fst t = [''name'', ''description'', ''input_schema''] \<and>
      dict_getitem t ''name'' = dict_getitem d ''name'' \<and>
      dict_getitem t ''description'' =
        Inr (case map_of d ''description'' of None \<Rightarrow> JStr [] | Some v \<Rightarrow> v) \<and>
      dict_getitem t ''input_schema'' =
        Inr (case map_of d ''inputSchema'' of None \<Rightarrow> default_input_schema | Some v \<Rightarrow> v))"

text \<open>
  Content blocks of a model response: every block is a dictionary with a type; a
  \<^verbatim>\<open>tool_use\<close> block has an id, a name and an input; a \<^verbatim>\<open>text\<close> block has a text
  that is a string.
\<close>

definition is_tool_use :: "json \<Rightarrow> bool" where
  "is_tool_use b = (py_getitem b ''type'' = Inr (JStr ''tool_use''))"

definition is_text :: "json \<Rightarrow> bool" where
  "is_text b = (py_getitem b ''type'' = Inr (JStr ''text''))"

definition has_key :: "json \<Rightarrow> string \<Rightarrow> bool" where
  "has_key b k = (case py_getitem b k of Inl _ \<Rightarrow> False | Inr _ \<Rightarrow> True)"

definition has_str :: "json \<Rightarrow> string \<Rightarrow> bool" where
  "has_str b k = (case py_getitem b k of Inr (JStr _) \<Rightarrow> True | _ \<Rightarrow> False)"

definition content_block :: "json \<Rightarrow> bool" where
  "content_block b =
     (has_key b ''type'' \<and>
      (is_tool_use b \<longrightarrow> has_key b ''id'' \<and> has_key b ''name'' \<and> has_key b ''input'') \<and>
      (is_text b \<longrightarrow> has_str b ''text''))"

text \<open>The value printed for a text block, and the string it adds to the final text.\<close>

definition block_text :: "json \<Rightarrow> json" where
  "block_text b = (case py_getitem b ''text'' of Inr v \<Rightarrow> v | Inl _ \<Rightarrow> JNull)"

definition text_value :: "json \<Rightarrow> string" where
  "text_value b = (case py_getitem b ''text'' of Inr (JStr s) \<Rightarrow> s | _ \<Rightarrow> [])"

text \<open>
  A tool call carries the id, the name and the input of the block it comes from, and
  nothing else.
\<close>

definition carries :: "json \<Rightarrow> dict \<Rightarrow> bool" where
  "carries b c =
     (has_key b ''id'' \<and> has_key b ''name'' \<and> has_key b ''input'' \<and>
      map fst c = [''id'', ''name'', ''input''] \<and>
      dict_getitem c ''id'' = py_getitem b ''id'' \<and>
      dict_getitem c ''name'' = py_getitem b ''name'' \<and>
      dict_getitem c ''input'' = py_getitem b ''input'')"

definition call_keys :: "dict \<Rightarrow> bool" where
  "call_keys c = (map fst c = [''id'', ''name'', ''input''])"

text \<open>
  A capability result: its content is a list of dictionaries, and the text of an entry of
  type \<^verbatim>\<open>text\<close> is a string (an entry without a text counts as the empty string, as
  \<^verbatim>\<open>.get("text", "")\<close> reads it). The flag \<^verbatim>\<open>isError\<close> is free.
\<close>

definition is_text_entry :: "json \<Rightarrow> bool" where
  "is_text_entry item = (py_get item ''type'' JNull = Inr (JStr ''text''))"

definition entry_value :: "json \<Rightarrow> string" where
  "entry_value item = (case py_get item ''text'' (JStr []) of Inr (JStr s) \<Rightarrow> s | _ \<Rightarrow> [])"

definition content_entry :: "json \<Rightarrow> bool" where
  "content_entry item =
     (case item of
        JObj d \<Rightarrow> (is_text_entry item \<longrightarrow>
                    (case dict_get d ''text'' (JStr []) of JStr _ \<Rightarrow> True | _ \<Rightarrow> False))
      | _ \<Rightarrow> False)"

definition capability_result :: "dict \<Rightarrow> bool" where
  "capability_result r =
     (case map_of r ''content'' of
        Some (JList items) \<Rightarrow> list_all content_entry items
      | _ \<Rightarrow> False)"

text \<open>The concatenation, in order, of the values of the text entries of a result.\<close>

definition result_text :: "dict \<Rightarrow> string" where
  "result_text r =
     (case map_of r ''content'' of
        Some (JList items) \<Rightarrow> concat (map entry_value (filter is_text_entry items))
      | _ \<Rightarrow> [])"

definition is_error :: "dict \<Rightarrow> bool" where
  "is_error r = (map_of r ''isError'' = Some (JBool True))"

subsection \<open>What a trace shows\<close>

text \<open>
  The requests sent to the Model Service with their outcomes, the tool invocations with
  their outcomes, the answer lines printed, the contexts entered with success, the
  contexts exited and the exceptions raised by exits, each in the order of the trace.
\<close>

definition model_requests :: "event list \<Rightarrow> (dict \<times> (error + response)) list" where
  "model_requests tr =
     concat (map (\<lambda>ev. case ev of MessagesCreate k r \<Rightarrow> [(k, r)] | _ \<Rightarrow> []) tr)"

definition tool_invocations :: "event list \<Rightarrow> (json \<times> json \<times> (error + dict)) list" where
  "tool_invocations tr =
     concat (map (\<lambda>ev. case ev of CallTool n a r \<Rightarrow> [(n, a, r)] | _ \<Rightarrow> []) tr)"

definition printed_lines :: "event list \<Rightarrow> printed list" where
  "printed_lines tr = concat (map (\<lambda>ev. case ev of Print p \<Rightarrow> [p] | _ \<Rightarrow> []) tr)"

definition acquired :: "event list \<Rightarrow> resource list" where
  "acquired tr = concat (map (\<lambda>ev. case ev of Enter r None \<Rightarrow> [r] | _ \<Rightarrow> []) tr)"

definition released :: "event list \<Rightarrow> resource list" where
  "released tr = concat (map (\<lambda>ev. case ev of Exit r res \<Rightarrow> [r] | _ \<Rightarrow> []) tr)"

definition exit_errors :: "event list \<Rightarrow> error list" where
  "exit_errors tr =
     concat (map (\<lambda>ev. case ev of Exit r (Some e) \<Rightarrow> [e] | _ \<Rightarrow> []) tr)"

definition inv_event :: "json \<times> json \<times> (error + dict) \<Rightarrow> event" where
  "inv_event i = (case i of (n, a, r) \<Rightarrow> CallTool n a r)"

text \<open>
  \<open>formatted_batch calls invs blocks\<close>: there is one invocation and one block per call,
  in the order of the calls; the k-th invocation was made with the name and the input of
  the k-th call and returned a result, and the k-th block is that result formatted under
  the id of the k-th call.
\<close>

fun formatted_batch ::
  "dict list \<Rightarrow> (json \<times> json \<times> (error + dict)) list \<Rightarrow> dict list \<Rightarrow> bool" where
  "formatted_batch [] [] [] = True"
| "formatted_batch (c # cs) ((n, a, res) # invs) (b # bs) =
     (dict_getitem c ''name'' = Inr n \<and> dict_getitem c ''input'' = Inr a \<and>
      (case res of
         Inl _ \<Rightarrow> False
       | Inr r \<Rightarrow> (case dict_getitem c ''id'' of
                     Inl _ \<Rightarrow> False
                   | Inr i \<Rightarrow> format_tool_result_for_claude i r = Inr b)) \<and>
      formatted_batch cs invs bs)"
| "formatted_batch _ _ _ = False"

text \<open>
  \<open>issued_in_order calls invs\<close>: the invocations made are those of the first calls, one
  each and in the order of the calls; an invocation is followed by another one only if it
  returned a result and that result was formatted.
\<close>

fun issued_in_order :: "dict list \<Rightarrow> (json \<times> json \<times> (error + dict)) list \<Rightarrow> bool" where
  "issued_in_order cs [] = True"
| "issued_in_order [] (x # xs) = False"
| "issued_in_order (c # cs) ((n, a, res) # invs) =
     (dict_getitem c ''name'' = Inr n \<and> dict_getitem c ''input'' = Inr a \<and>
      (invs \<noteq> [] \<longrightarrow>
         (case res of
            Inl _ \<Rightarrow> False
          | Inr r \<Rightarrow> (case dict_getitem c ''id'' of
                        Inl _ \<Rightarrow> False
                      | Inr i \<Rightarrow> (case format_tool_result_for_claude i r of
                                    Inl _ \<Rightarrow> False
                                  | Inr _ \<Rightarrow> True)))) \<and>
      issued_in_order cs invs)"

text \<open>The messages of the two requests of a run.\<close>

definition user_message :: "string \<Rightarrow> dict" where
  "user_message q = [(''role'', JStr ''user''), (''content'', JStr q)]"

definition synthesis_messages :: "string \<Rightarrow> response \<Rightarrow> dict list \<Rightarrow> dict list" where
  "synthesis_messages q planning blocks =
     [[(''role'', JStr ''user''), (''content'', JStr q)],
      [(''role'', JStr ''assistant''), (''content'', JList (map JObj (resp_content planning)))],
      [(''role'', JStr ''user''), (''content'', JList (map JObj blocks))]]"

subsection \<open>Steps that leave a view of the state alone\<close>

definition unchanged :: "(state \<Rightarrow> 'b) \<Rightarrow> 'a io \<Rightarrow> bool" where
  "unchanged f m = (\<forall>s r s'. m s = (r, s') \<longrightarrow> f s' = f s)"

definition lifecycle :: "state \<Rightarrow> resource list \<times> resource list \<times> resource list" where
  "lifecycle s = (exit_stack s, acquired (trace s), released (trace s))"

section \<open>Sample runs\<close>

text \<open>
  A Tool Provider with two tools, of which \<^verbatim>\<open>get_weather\<close> reports an error, and a
  Model Service that first asks for both tools and then answers.
\<close>

definition sample_query :: string where
  "sample_query = ''What is 42 + 8?''"

definition sample_tools :: "dict list" where
  "sample_tools =
     [[(''name'', JStr ''calculate''),
       (''description'', JStr ''Safely evaluate a mathematical expression.''),
       (''inputSchema'',
          JObj [(''type'', JStr ''object''),
                (''properties'', JObj [(''expression'', JObj [(''type'', JStr ''string'')])])])],
      [(''name'', JStr ''get_weather'')]]"

definition sample_planning :: response where
  "sample_planning =
     \<lparr>resp_id = JStr ''msg_01'', resp_type = JStr ''message'', resp_role = JStr ''assistant'',
      resp_content =
        [[(''type'', JStr ''text''), (''text'', JStr ''Let me check.'')],
         [(''type'', JStr ''tool_use''), (''id'', JStr ''toolu_01''),
          (''name'', JStr ''get_weather''), (''input'', JObj [(''town'', JStr ''Paris'')])],
         [(''type'', JStr ''tool_use''), (''id'', JStr ''toolu_02''),
          (''name'', JStr ''calculate''), (''input'', JObj [(''expression'', JStr ''42 + 8'')])]],
      resp_model = JStr model, resp_stop_reason = JStr ''tool_use'', resp_usage = JObj []\<rparr>"

definition sample_synthesis :: response where
  "sample_synthesis =
     \<lparr>resp_id = JStr ''msg_02'', resp_type = JStr ''message'', resp_role = JStr ''assistant'',
      resp_content =
        [[(''type'', JStr ''text''), (''text'', JStr ''42 + 8 = 50. '')],
         [(''type'', JStr ''text''), (''text'', JStr ''The weather lookup failed.'')]],
      resp_model = JStr model, resp_stop_reason = JStr ''end_turn'', resp_usage = JObj []\<rparr>"

definition sample_chat :: response where
  "sample_chat =
     \<lparr>resp_id = JStr ''msg_03'', resp_type = JStr ''message'', resp_role = JStr ''assistant'',
      resp_content = [[(''type'', JStr ''text''), (''text'', JStr ''Hello!'')]],
      resp_model = JStr model, resp_stop_reason = JStr ''end_turn'', resp_usage = JObj []\<rparr>"

definition failed_result :: dict where
  "failed_result =
     [(''content'', JList [JObj [(''type'', JStr ''text''),
                                 (''text'', JStr ''Error executing tool get_weather'')]]),
      (''isError'', JBool True)]"

definition calculate_result :: dict where
  "calculate_result =
     [(''content'', JList [JObj [(''type'', JStr ''text''),
                                 (''text'', JStr ''The result is: 50'')]]),
      (''isError'', JBool False)]"

definition sample_env :: env where
  "sample_env =
     \<lparr>api_key = Some ''sk-test'',
      enter_context = (\<lambda>tr r. None),
      exit_context = (\<lambda>tr r. None),
      session_initialize = (\<lambda>tr. Inr (JObj [(''protocolVersion'', JStr ''2025-06-18'')])),
      session_list_tools = (\<lambda>tr. Inr sample_tools),
      session_call_tool =
        (\<lambda>tr n a. if n = JStr ''calculate'' then Inr calculate_result else Inr failed_result),
      messages_create =
        (\<lambda>tr kwargs. if model_requests tr = [] then Inr sample_planning
                       else Inr sample_synthesis)\<rparr>"

text \<open>The same world with a Model Service that selects no tool.\<close>

definition chat_env :: env where
  "chat_env = sample_env\<lparr>messages_create := (\<lambda>tr kwargs. Inr sample_chat)\<rparr>"

text \<open>
  The same world with a \<^verbatim>\<open>get_weather\<close> that reports its error with an embedded
  resource: the dump of the result holds the \<^verbatim>\<open>AnyUrl\<close> of the resource, and no text
  entry.
\<close>

definition resource_result :: dict where
  "resource_result =
     [(''content'',
         JList [JObj [(''type'', JStr ''resource''),
                      (''resource'',
                         JObj [(''uri'', JOther ''AnyUrl(file:///weather.log)''),
                               (''mimeType'', JStr ''text/plain''),
                               (''text'', JStr ''lookup failed'')])]]),
      (''isError'', JBool True)]"

definition resource_env :: env where
  "resource_env =
     sample_env\<lparr>session_call_tool :=
       (\<lambda>tr n a. if n = JStr ''calculate'' then Inr calculate_result
                   else Inr resource_result)\<rparr>"

text \<open>
  A tool without a description, as \<^verbatim>\<open>list_tools\<close> hands it over: \<^verbatim>\<open>model_dump()\<close>
  writes every field of the tool, the description as \<^verbatim>\<open>None\<close>.
\<close>

definition undescribed_tool :: dict where
  "undescribed_tool =
     [(''name'', JStr ''ping''),
      (''description'', JNull),
      (''inputSchema'', JObj [(''type'', JStr ''object''), (''properties'', JObj [])])]"

text \<open>The same world with a handshake that fails.\<close>

definition failed_initialize_env :: env where
  "failed_initialize_env =
     sample_env\<lparr>session_initialize := (\<lambda>tr. Inl (ExternalError ''connection closed''))\<rparr>"

definition state_after_failed_initialize :: state where
  "state_after_failed_initialize =
     snd (connect failed_initialize_env server_path initial_state)"

text \<open>The tools, the tool results and the traces these runs are expected to produce.\<close>

definition sample_claude_tools :: "dict list" where
  "sample_claude_tools =
     [[(''name'', JStr ''calculate''),
       (''description'', JStr ''Safely evaluate a mathematical expression.''),
       (''input_schema'',
          JObj [(''type'', JStr ''object''),
                (''properties'', JObj [(''expression'', JObj [(''type'', JStr ''string'')])])])],
      [(''name'', JStr ''get_weather''),
       (''description'', JStr []),
       (''input_schema'', JObj [(''type'', JStr ''object''), (''properties'', JObj [])])]]"

definition sample_tool_results :: "dict list" where
  "sample_tool_results =
     [[(''type'', JStr ''tool_result''), (''tool_use_id'', JStr ''toolu_01''),
       (''content'', JStr ''Error executing tool get_weather'')],
      [(''type'', JStr ''tool_result''), (''tool_use_id'', JStr ''toolu_02''),
       (''content'', JStr ''The result is: 50'')]]"

definition sample_trace :: "event list" where
  "sample_trace =
     [Enter (StdioClient server_path) None,
      Enter ClientSessionCtx None,
      Initialize (Inr (JObj [(''protocolVersion'', JStr ''2025-06-18'')])),
      ListTools (Inr sample_tools),
      MessagesCreate
        (call_claude_kwargs [user_message sample_query] (Some sample_claude_tools) 1024)
        (Inr sample_planning),
      CallTool (JStr ''get_weather'') (JObj [(''town'', JStr ''Paris'')]) (Inr failed_result),
      CallTool (JStr ''calculate'') (JObj [(''expression'', JStr ''42 + 8'')])
        (Inr calculate_result),
      MessagesCreate
        (call_claude_kwargs (synthesis_messages sample_query sample_planning sample_tool_results)
           (Some sample_claude_tools) 1024)
        (Inr sample_synthesis),
      Print (FinalText ''42 + 8 = 50. The weather lookup failed.''),
      Exit ClientSessionCtx None,
      Exit (StdioClient server_path) None]"

definition chat_trace :: "event list" where
  "chat_trace =
     [Enter (StdioClient server_path) None,
      Enter ClientSessionCtx None,
      Initialize (Inr (JObj [(''protocolVersion'', JStr ''2025-06-18'')])),
      ListTools (Inr sample_tools),
      MessagesCreate
        (call_claude_kwargs [user_message sample_query] (Some sample_claude_tools) 1024)
        (Inr sample_chat),
      Print (ClaudeText (JStr ''Hello!'')),
      Exit ClientSessionCtx None,
      Exit (StdioClient server_path) None]"

definition sample_final_state :: state where
  "sample_final_state = \<lparr>session = Some ClientSession, exit_stack = [], trace = sample_trace\<rparr>"

definition chat_final_state :: state where
  "chat_final_state = \<lparr>session = Some ClientSession, exit_stack = [], trace = chat_trace\<rparr>"

section \<open>Lemmas\<close>

subsection \<open>Sequencing\<close>

lemma bindS_cases [consumes 1, case_names raised continued]:
  assumes "bindS m g s = (r, s')"
  obtains e where "m s = (Inl e, s')" "r = Inl e"
  | x s1 where "m s = (Inr x, s1)" "g x s1 = (r, s')"
proof -
  obtain r1 s1 where m: "m s = (r1, s1)" by (cases "m s")
  show thesis
  proof (cases r1)
    case (Inl e)
    with assms m have "m s = (Inl e, s')" "r = Inl e" by (simp_all add: bindS_def)
    then show thesis by (rule that(1))
  next
    case (Inr x)
    with assms m have "m s = (Inr x, s1)" "g x s1 = (r, s')" by (simp_all add: bindS_def)
    then show thesis by (rule that(2))
  qed
qed

lemma bindS_liftE_cases [consumes 1, case_names raised continued]:
  assumes "bindS (liftE x) g s = (r, s')"
  obtains e where "x = Inl e" "r = Inl e" "s' = s"
  | v where "x = Inr v" "g v s = (r, s')"
proof (cases x)
  case (Inl e)
  with assms have "r = Inl e" "s' = s" by (simp_all add: bindS_def liftE_def)
  with Inl show thesis by (rule that(1))
next
  case (Inr v)
  with assms have "g v s = (r, s')" by (simp add: bindS_def liftE_def)
  with Inr show thesis by (rule that(2))
qed

lemma trace_record_event [simp]:
  "trace (record_event ev s) = trace s @ [ev]"
  "session (record_event ev s) = session s"
  "exit_stack (record_event ev s) = exit_stack s"
  by (simp_all add: record_event_def)

subsection \<open>Views of a trace\<close>

lemma projections_append [simp]:
  "model_requests (xs @ ys) = model_requests xs @ model_requests ys"
  "tool_invocations (xs @ ys) = tool_invocations xs @ tool_invocations ys"
  "printed_lines (xs @ ys) = printed_lines xs @ printed_lines ys"
  "acquired (xs @ ys) = acquired xs @ acquired ys"
  "released (xs @ ys) = released xs @ released ys"
  by (simp_all add: model_requests_def tool_invocations_def printed_lines_def
        acquired_def released_def)

lemma projections_Nil [simp]:
  "model_requests [] = []" "tool_invocations [] = []" "printed_lines [] = []"
  "acquired [] = []" "released [] = []"
  by (simp_all add: model_requests_def tool_invocations_def printed_lines_def
        acquired_def released_def)

lemma projections_Cons:
  "model_requests (ev # evs) =
     (case ev of MessagesCreate k r \<Rightarrow> [(k, r)] | _ \<Rightarrow> []) @ model_requests evs"
  "tool_invocations (ev # evs) =
     (case ev of CallTool n a r \<Rightarrow> [(n, a, r)] | _ \<Rightarrow> []) @ tool_invocations evs"
  "printed_lines (ev # evs) = (case ev of Print p \<Rightarrow> [p] | _ \<Rightarrow> []) @ printed_lines evs"
  "acquired (ev # evs) = (case ev of Enter r None \<Rightarrow> [r] | _ \<Rightarrow> []) @ acquired evs"
  "released (ev # evs) = (case ev of Exit r res \<Rightarrow> [r] | _ \<Rightarrow> []) @ released evs"
  by (simp_all add: model_requests_def tool_invocations_def printed_lines_def
        acquired_def released_def)

lemma projections_inv_events [simp]:
  "tool_invocations (map inv_event invs) = invs"
  "model_requests (map inv_event invs) = []"
  "printed_lines (map inv_event invs) = []"
  "acquired (map inv_event invs) = []"
  "released (map inv_event invs) = []"
  by (induction invs) (auto simp: projections_Cons inv_event_def)

lemma exit_errors_append [simp]: "exit_errors (xs @ ys) = exit_errors xs @ exit_errors ys"
  by (simp add: exit_errors_def)

lemma exit_errors_simps [simp]:
  "exit_errors [] = []"
  "exit_errors [Exit r res] = (case res of Some e \<Rightarrow> [e] | None \<Rightarrow> [])"
  by (simp_all add: exit_errors_def split: option.splits)

lemma released_Nil_exit_errors: "released tr = [] \<Longrightarrow> exit_errors tr = []"
  by (induction tr) (auto simp: released_def exit_errors_def split: event.splits)

lemma kwargs_messages [simp]:
  "dict_getitem (call_claude_kwargs msgs tools mt) ''messages'' = Inr (JList (map JObj msgs))"
  by (simp add: call_claude_kwargs_def dict_getitem_def)

lemma response_dict_content [simp]:
  "dict_getitem (response_dict resp) ''content'' = Inr (JList (map JObj (resp_content resp)))"
  by (simp add: response_dict_def dict_getitem_def)

subsection \<open>Unchanged views\<close>

lemma unchanged_bindS:
  assumes "unchanged f m" and "\<And>x. unchanged f (g x)"
  shows "unchanged f (bindS m g)"
  unfolding unchanged_def
proof (intro allI impI)
  fix s r s'
  assume run: "bindS m g s = (r, s')"
  obtain r1 s1 where m: "m s = (r1, s1)" by (cases "m s")
  with assms(1) have 1: "f s1 = f s" by (simp add: unchanged_def)
  show "f s' = f s"
  proof (cases r1)
    case (Inl e)
    with run m 1 show ?thesis by (simp add: bindS_def)
  next
    case (Inr x)
    with run m have "g x s1 = (r, s')" by (simp add: bindS_def)
    with assms(2) [of x] have "f s' = f s1" by (simp add: unchanged_def)
    with 1 show ?thesis by simp
  qed
qed

lemma unchanged_liftE: "unchanged f (liftE x)"
  by (simp add: unchanged_def liftE_def)

lemma unchanged_if:
  "unchanged f m \<Longrightarrow> unchanged f n \<Longrightarrow> unchanged f (if b then m else n)"
  by simp

lemma unchanged_bindS_D:
  "bindS m g s = (r, s') \<Longrightarrow> unchanged f m \<Longrightarrow> (\<And>x. unchanged f (g x)) \<Longrightarrow> f s' = f s"
  using unchanged_bindS [of f m g] by (simp add: unchanged_def)

subsection \<open>The pure functions of the Claude client\<close>

lemma convert_loop_ok:
  "list_all has_name ds \<Longrightarrow>
   \<exists>ts. convert_mcp_tools_loop acc ds = Inr (acc @ ts) \<and> list_all2 translates ds ts"
proof (induction ds arbitrary: acc)
  case Nil
  then show ?case by simp
next
  case (Cons d ds)
  from Cons.prems have hd: "has_name d" and rest: "list_all has_name ds"
    by simp_all
  from hd obtain n where n: "map_of d ''name'' = Some n"
    by (auto simp: has_name_def)
  let ?t = "[(''name'', n),
              (''description'', dict_get d ''description'' (JStr [])),
              (''input_schema'', dict_get d ''inputSchema'' default_input_schema)]"
  from Cons.IH [OF rest, of "acc @ [?t]"] obtain ts
    where ts: "convert_mcp_tools_loop (acc @ [?t]) ds = Inr ((acc @ [?t]) @ ts)"
      and rel: "list_all2 translates ds ts" by blast
  have "translates d ?t"
    by (simp add: translates_def dict_getitem_def dict_get_def n)
  with ts rel show ?case
    by (intro exI [of _ "?t # ts"]) (simp add: bindE_def dict_getitem_def n)
qed

lemma extract_loop_ok:
  "list_all content_block blocks \<Longrightarrow>
   \<exists>calls. extract_tool_calls_loop acc blocks = Inr (acc @ calls) \<and>
           list_all2 carries (filter is_tool_use blocks) calls"
proof (induction blocks arbitrary: acc)
  case Nil
  then show ?case by simp
next
  case (Cons b bs)
  from Cons.prems have b: "content_block b" and rest: "list_all content_block bs"
    by simp_all
  from b obtain ty where ty: "py_getitem b ''type'' = Inr ty"
    by (auto simp: content_block_def has_key_def split: sum.splits)
  show ?case
  proof (cases "ty = JStr ''tool_use''")
    case False
    with ty have "\<not> is_tool_use b" by (simp add: is_tool_use_def)
    with Cons.IH [OF rest, of acc] ty False show ?thesis
      by (simp add: bindE_def)
  next
    case True
    with ty have tu: "is_tool_use b" by (simp add: is_tool_use_def)
    with b obtain i n a where keys: "py_getitem b ''id'' = Inr i"
        "py_getitem b ''name'' = Inr n" "py_getitem b ''input'' = Inr a"
      by (auto simp: content_block_def has_key_def split: sum.splits)
    let ?c = "[(''id'', i), (''name'', n), (''input'', a)]"
    from Cons.IH [OF rest, of "acc @ [?c]"] obtain calls
      where calls: "extract_tool_calls_loop (acc @ [?c]) bs = Inr ((acc @ [?c]) @ calls)"
        and rel: "list_all2 carries (filter is_tool_use bs) calls" by blast
    have "carries b ?c"
      by (simp add: carries_def has_key_def keys dict_getitem_def)
    with calls rel tu ty True keys show ?thesis
      by (intro exI [of _ "?c # calls"]) (simp add: bindE_def)
  qed
qed

lemma extract_tool_calls_ok:
  assumes "dict_getitem resp ''content'' = Inr (JList blocks)"
    and "list_all content_block blocks"
  shows "\<exists>calls. extract_tool_calls resp = Inr calls \<and>
           list_all2 carries (filter is_tool_use blocks) calls \<and>
           length calls = length (filter is_tool_use blocks) \<and>
           (filter is_tool_use blocks = [] \<longrightarrow> calls = [])"
proof -
  from extract_loop_ok [OF assms(2), of "[]"] obtain calls
    where calls: "extract_tool_calls_loop [] blocks = Inr calls"
      and rel: "list_all2 carries (filter is_tool_use blocks) calls" by auto
  from calls assms(1) have "extract_tool_calls resp = Inr calls"
    by (simp add: extract_tool_calls_def bindE_def)
  moreover from rel have "length calls = length (filter is_tool_use blocks)"
    by (simp add: list_all2_lengthD)
  ultimately show ?thesis using rel by auto
qed

lemma extract_loop_call_keys:
  "extract_tool_calls_loop acc blocks = Inr calls \<Longrightarrow> list_all call_keys acc \<Longrightarrow>
   list_all call_keys calls"
proof (induction blocks arbitrary: acc)
  case Nil
  then show ?case by simp
next
  case (Cons b bs)
  then show ?case
    by (auto simp: bindE_def call_keys_def split: sum.splits if_splits)
qed

lemma extract_call_keys:
  "extract_tool_calls resp = Inr calls \<Longrightarrow> list_all call_keys calls"
  by (auto simp: extract_tool_calls_def bindE_def split: sum.splits
        dest: extract_loop_call_keys)

lemma extract_loop_no_tool_use:
  "extract_tool_calls_loop acc blocks = Inr calls \<Longrightarrow> filter is_tool_use blocks = [] \<Longrightarrow>
   calls = acc"
proof (induction blocks arbitrary: acc)
  case Nil
  then show ?case by simp
next
  case (Cons b bs)
  then show ?case
    by (auto simp: bindE_def is_tool_use_def split: sum.splits if_splits)
qed

lemma call_keys_getitem:
  assumes "call_keys c"
  shows "\<exists>i n a. dict_getitem c ''id'' = Inr i \<and> dict_getitem c ''name'' = Inr n \<and>
           dict_getitem c ''input'' = Inr a"
proof -
  from assms obtain x y z where "c = [x, y, z]"
    by (auto simp: call_keys_def map_eq_Cons_conv)
  with assms show ?thesis
    by (cases x; cases y; cases z) (simp add: call_keys_def dict_getitem_def)
qed

lemma content_text_loop_ok:
  "list_all content_entry items \<Longrightarrow>
   content_text_loop acc items = Inr (acc @ concat (map entry_value (filter is_text_entry items)))"
proof (induction items arbitrary: acc)
  case Nil
  then show ?case by simp
next
  case (Cons item items)
  from Cons.prems have item: "content_entry item" and rest: "list_all content_entry items"
    by simp_all
  from item obtain d where d: "item = JObj d"
    by (cases item) (simp_all add: content_entry_def)
  show ?case
  proof (cases "is_text_entry item")
    case False
    with d Cons.IH [OF rest, of acc] show ?thesis
      by (simp add: bindE_def is_text_entry_def)
  next
    case True
    with item d obtain s where s: "dict_get d ''text'' (JStr []) = JStr s"
      by (auto simp: content_entry_def split: json.splits)
    with d True Cons.IH [OF rest, of "acc @ s"] show ?thesis
      by (simp add: bindE_def is_text_entry_def entry_value_def)
  qed
qed

lemma json_dumps_obj_nonempty: "json_dumps (JObj d) = Inr x \<Longrightarrow> x \<noteq> []"
  by (auto simp: bindE_def split: sum.splits)

lemma format_tool_result_ok:
  assumes "capability_result result"
  shows "format_tool_result_for_claude call_id result =
           (if result_text result \<noteq> []
            then Inr [(''type'', JStr ''tool_result''), (''tool_use_id'', call_id),
                      (''content'', JStr (result_text result))]
            else bindE (json_dumps (JObj result)) (\<lambda>dump.
                   Inr [(''type'', JStr ''tool_result''), (''tool_use_id'', call_id),
                        (''content'', JStr dump)]))"
proof -
  from assms obtain items where items: "map_of result ''content'' = Some (JList items)"
      and wf: "list_all content_entry items"
    by (auto simp: capability_result_def split: option.splits json.splits)
  have loop: "content_text_loop [] items = Inr (result_text result)"
    using content_text_loop_ok [OF wf, of "[]"] items by (simp add: result_text_def)
  have "extract_content_text result = Inr (result_text result)"
  proof (cases "items = []")
    case True
    with items show ?thesis
      by (simp add: extract_content_text_def result_text_def)
  next
    case False
    with items loop show ?thesis
      by (simp add: extract_content_text_def bindE_def)
  qed
  then show ?thesis
    by (simp add: format_tool_result_for_claude_def bindE_def)
qed

lemma final_text_loop_ok:
  "list_all content_block blocks \<Longrightarrow>
   final_text_loop acc blocks = Inr (acc @ concat (map text_value (filter is_text blocks)))"
proof (induction blocks arbitrary: acc)
  case Nil
  then show ?case by simp
next
  case (Cons b bs)
  from Cons.prems have b: "content_block b" and rest: "list_all content_block bs"
    by simp_all
  from b obtain ty where ty: "py_getitem b ''type'' = Inr ty"
    by (auto simp: content_block_def has_key_def split: sum.splits)
  show ?case
  proof (cases "ty = JStr ''text''")
    case False
    with ty Cons.IH [OF rest, of acc] show ?thesis
      by (simp add: bindE_def is_text_def)
  next
    case True
    with ty b obtain t where t: "py_getitem b ''text'' = Inr (JStr t)"
      by (auto simp: content_block_def is_text_def has_str_def split: sum.splits json.splits)
    with ty True Cons.IH [OF rest, of "acc @ t"] show ?thesis
      by (simp add: bindE_def is_text_def text_value_def)
  qed
qed

subsection \<open>The steps of a run\<close>

lemma connect_trace:
  assumes "connect env p initial_state = (r, s)"
  shows "model_requests (trace s) = [] \<and> tool_invocations (trace s) = [] \<and>
         printed_lines (trace s) = [] \<and> released (trace s) = [] \<and>
         exit_stack s = rev (acquired (trace s)) \<and>
         (acquired (trace s) = [] \<or> acquired (trace s) = [StdioClient p] \<or>
          acquired (trace s) = [StdioClient p, ClientSessionCtx]) \<and>
         (\<forall>x. r = Inr x \<longrightarrow> session s = Some ClientSession)"
  using assms
  by (auto simp: connect_def bindS_def liftE_def enter_async_context_def
        perform_initialize_def initial_state_def Let_def projections_Cons
        split: option.splits sum.splits)

lemma list_tools_trace:
  assumes "list_tools env s = (r, s')"
  shows "session s' = session s \<and> exit_stack s' = exit_stack s \<and>
         model_requests (trace s') = model_requests (trace s) \<and>
         tool_invocations (trace s') = tool_invocations (trace s) \<and>
         printed_lines (trace s') = printed_lines (trace s) \<and>
         acquired (trace s') = acquired (trace s) \<and>
         released (trace s') = released (trace s)"
  using assms
  by (auto simp: list_tools_def perform_list_tools_def bindS_def liftE_def Let_def
        projections_Cons split: option.splits sum.splits)

lemma call_tool_cases [consumes 1, case_names not_sent sent]:
  assumes "call_tool env n a s = (r, s')"
  obtains e where "r = Inl e" "s' = s"
  | res where "session s \<noteq> None" "s' = record_event (CallTool n a res) s"
      "r = (case res of
              Inl e \<Rightarrow> Inl e
            | Inr mr \<Rightarrow> (case json_dumps (JObj mr) of Inl e \<Rightarrow> Inl e | Inr _ \<Rightarrow> Inr mr))"
proof (cases "session s")
  case None
  with assms have "r = Inl (RuntimeError ''Not connected to a server'')" "s' = s"
    by (simp_all add: call_tool_def)
  then show thesis by (rule that(1))
next
  case (Some sess)
  show thesis
  proof (cases "json_dumps a")
    case (Inl e)
    with assms Some have "r = Inl e" "s' = s"
      by (simp_all add: call_tool_def bindS_def liftE_def)
    then show thesis by (rule that(1))
  next
    case (Inr d)
    define res where "res = session_call_tool env (trace s) n a"
    from assms Some Inr have
      "s' = record_event (CallTool n a res) s"
      "r = (case res of
              Inl e \<Rightarrow> Inl e
            | Inr mr \<Rightarrow> (case json_dumps (JObj mr) of Inl e \<Rightarrow> Inl e | Inr _ \<Rightarrow> Inr mr))"
      by (auto simp: call_tool_def perform_call_tool_def bindS_def liftE_def Let_def res_def
            split: sum.splits)
    with Some show thesis by (intro that(2)) simp_all
  qed
qed

lemma call_claude_cases [consumes 1, case_names log_failed requested]:
  assumes "call_claude env msgs tools mt s = (r, s')"
  obtains e where "log_tool_names tools = Inl e" "r = Inl e" "s' = s"
  | res where "log_tool_names tools = Inr ()"
      "s' = record_event (MessagesCreate (call_claude_kwargs msgs tools mt) res) s"
      "r = (case res of Inl e \<Rightarrow> Inl e | Inr resp \<Rightarrow> Inr (response_dict resp))"
proof (cases "log_tool_names tools")
  case (Inl e)
  with assms have "r = Inl e" "s' = s"
    by (simp_all add: call_claude_def bindS_def liftE_def)
  with Inl show thesis by (rule that(1))
next
  case (Inr u)
  define res where "res = messages_create env (trace s) (call_claude_kwargs msgs tools mt)"
  from assms Inr have
    "s' = record_event (MessagesCreate (call_claude_kwargs msgs tools mt) res) s"
    "r = (case res of Inl e \<Rightarrow> Inl e | Inr resp \<Rightarrow> Inr (response_dict resp))"
    by (auto simp: call_claude_def bindS_def liftE_def perform_messages_create_def Let_def
          res_def split: sum.splits)
  with Inr show thesis by (intro that(2)) simp_all
qed

lemma print_text_blocks_trace:
  "print_text_blocks blocks s = (r, s') \<Longrightarrow>
     session s' = session s \<and> exit_stack s' = exit_stack s \<and>
     (\<exists>ts. trace s' = trace s @ map (\<lambda>t. Print (ClaudeText t)) ts \<and>
        (r = Inr () \<longrightarrow> ts = map block_text (filter is_text blocks)) \<and>
        (list_all content_block blocks \<longrightarrow> r = Inr ()))"
proof (induction blocks arbitrary: s)
  case Nil
  then show ?case by (auto simp: liftE_def)
next
  case (Cons b bs)
  from Cons.prems [unfolded print_text_blocks.simps(2)] show ?case
  proof (cases rule: bindS_liftE_cases)
    case (raised e)
    then show ?thesis
      by (auto simp: content_block_def has_key_def)
  next
    case ty: (continued ty)
    show ?thesis
    proof (cases "ty = JStr ''text''")
      case False
      with ty have "print_text_blocks bs s = (r, s')" and "\<not> is_text b"
        by (simp_all add: is_text_def)
      with Cons.IH [of s] show ?thesis by auto
    next
      case True
      with ty have istext: "is_text b" by (simp add: is_text_def)
      from ty(2) True
      have "bindS (liftE (py_getitem b ''text'')) (\<lambda>t.
              bindS (print_line (ClaudeText t)) (\<lambda>_. print_text_blocks bs)) s = (r, s')"
        by simp
      then show ?thesis
      proof (cases rule: bindS_liftE_cases)
        case (raised e)
        with istext show ?thesis
          by (auto simp: content_block_def has_str_def)
      next
        case (continued t)
        then have rest: "print_text_blocks bs (record_event (Print (ClaudeText t)) s) = (r, s')"
          by (simp add: bindS_def print_line_def)
        from Cons.IH [OF rest] obtain ts where
          ts: "trace s' = trace s @ [Print (ClaudeText t)] @ map (\<lambda>t. Print (ClaudeText t)) ts"
            "r = Inr () \<longrightarrow> ts = map block_text (filter is_text bs)"
            "list_all content_block bs \<longrightarrow> r = Inr ()"
            "session s' = session s" "exit_stack s' = exit_stack s"
          by auto
        from ts continued(1) istext show ?thesis
          by (intro conjI exI [of _ "t # ts"]) (auto simp: block_text_def)
      qed
    qed
  qed
qed

lemma formatted_batch_length:
  "formatted_batch calls invs blocks \<Longrightarrow> length invs = length calls \<and> length blocks = length calls"
  by (induction calls invs blocks rule: formatted_batch.induct) auto

lemma formatted_batch_nth:
  "formatted_batch calls invs blocks \<Longrightarrow> k < length calls \<Longrightarrow>
     \<exists>n a r i. invs ! k = (n, a, Inr r) \<and> dict_getitem (calls ! k) ''id'' = Inr i \<and>
        dict_getitem (calls ! k) ''name'' = Inr n \<and> dict_getitem (calls ! k) ''input'' = Inr a \<and>
        format_tool_result_for_claude i r = Inr (blocks ! k)"
proof (induction calls invs blocks arbitrary: k rule: formatted_batch.induct)
  case (2 c cs n a res invs b bs)
  then show ?case
    by (cases k) (auto split: sum.splits)
qed auto

lemma execute_tool_calls_trace:
  "execute_tool_calls env acc calls s = (res, s') \<Longrightarrow>
     \<exists>invs. trace s' = trace s @ map inv_event invs \<and> issued_in_order calls invs \<and>
       (\<forall>blocks. res = Inr blocks \<longrightarrow>
          (\<exists>bs. blocks = acc @ bs \<and> formatted_batch calls invs bs))"
proof (induction calls arbitrary: acc s)
  case Nil
  then show ?case
    by (intro exI [of _ "[]"]) (auto simp: liftE_def)
next
  case (Cons c cs)
  from Cons.prems [unfolded execute_tool_calls.simps(2)] show ?case
  proof (cases rule: bindS_liftE_cases)
    case (raised e)
    then show ?thesis by (intro exI [of _ "[]"]) simp
  next
    case n: (continued n)
    from n(2) show ?thesis
    proof (cases rule: bindS_liftE_cases)
      case (raised e)
      then show ?thesis by (intro exI [of _ "[]"]) simp
    next
      case a: (continued a)
      from a(2) show ?thesis
      proof (cases rule: bindS_cases)
        case (raised e)
        from raised(1) show ?thesis
        proof (cases rule: call_tool_cases)
          case (not_sent e')
          with raised(2) show ?thesis by (intro exI [of _ "[]"]) simp
        next
          case (sent r)
          with raised(2) n(1) a(1) show ?thesis
            by (intro exI [of _ "[(n, a, r)]"]) (simp add: inv_event_def)
        qed
      next
        case ct: (continued mr s1)
        from ct(1) have s1: "s1 = record_event (CallTool n a (Inr mr)) s"
          by (cases rule: call_tool_cases) (auto split: sum.splits)
        from ct(2) show ?thesis
        proof (cases rule: bindS_liftE_cases)
          case (raised e)
          with s1 n(1) a(1) show ?thesis
            by (intro exI [of _ "[(n, a, Inr mr)]"]) (simp add: inv_event_def)
        next
          case i: (continued i)
          from i(2) show ?thesis
          proof (cases rule: bindS_liftE_cases)
            case (raised e)
            with s1 n(1) a(1) show ?thesis
              by (intro exI [of _ "[(n, a, Inr mr)]"]) (simp add: inv_event_def)
          next
            case b: (continued b)
            from Cons.IH [OF b(2)] obtain invs where
              tr: "trace s' = trace s1 @ map inv_event invs" and
              ord: "issued_in_order cs invs" and
              out: "\<forall>blocks. res = Inr blocks \<longrightarrow>
                      (\<exists>bs. blocks = (acc @ [b]) @ bs \<and> formatted_batch cs invs bs)"
              by blast
            show ?thesis
            proof (intro exI [of _ "(n, a, Inr mr) # invs"] conjI allI impI)
              show "trace s' = trace s @ map inv_event ((n, a, Inr mr) # invs)"
                using tr s1 by (simp add: inv_event_def)
              show "issued_in_order (c # cs) ((n, a, Inr mr) # invs)"
                using ord n(1) a(1) i(1) b(1) by simp
            next
              fix blocks assume "res = Inr blocks"
              with out obtain bs where "blocks = (acc @ [b]) @ bs" "formatted_batch cs invs bs"
                by blast
              with n(1) a(1) i(1) b(1)
              show "\<exists>bs'. blocks = acc @ bs' \<and>
                      formatted_batch (c # cs) ((n, a, Inr mr) # invs) bs'"
                by (intro exI [of _ "b # bs"]) simp
            qed
          qed
        qed
      qed
    qed
  qed
qed

lemma run_exits_trace:
  "run_exits env rs pending tr = (p, tr') \<Longrightarrow>
     \<exists>evs. tr' = tr @ evs \<and> released evs = rs \<and> acquired evs = [] \<and>
       model_requests evs = [] \<and> tool_invocations evs = [] \<and> printed_lines evs = [] \<and>
       (p = None \<longleftrightarrow> pending = None \<and> exit_errors evs = [])"
proof (induction rs arbitrary: pending tr)
  case Nil
  then show ?case by simp
next
  case (Cons r rs)
  define res where "res = exit_context env tr r"
  from Cons.prems have
    "run_exits env rs (case res of Some e \<Rightarrow> Some e | None \<Rightarrow> pending) (tr @ [Exit r res])
       = (p, tr')"
    by (simp add: res_def Let_def)
  from Cons.IH [OF this] obtain evs where evs:
    "tr' = (tr @ [Exit r res]) @ evs" "released evs = rs" "acquired evs = []"
    "model_requests evs = []" "tool_invocations evs = []" "printed_lines evs = []"
    "p = None \<longleftrightarrow> (case res of Some e \<Rightarrow> Some e | None \<Rightarrow> pending) = None \<and> exit_errors evs = []"
    by blast
  then show ?case
    by (intro exI [of _ "Exit r res # evs"])
       (auto simp: projections_Cons exit_errors_def split: option.splits)
qed

lemma cleanup_trace:
  assumes "cleanup env s = (r, s')"
  shows "\<exists>evs. trace s' = trace s @ evs \<and> released evs = exit_stack s \<and> acquired evs = [] \<and>
           model_requests evs = [] \<and> tool_invocations evs = [] \<and> printed_lines evs = [] \<and>
           (r = Inr () \<longleftrightarrow> exit_errors evs = []) \<and> exit_stack s' = []"
proof -
  obtain p tr' where re: "run_exits env (exit_stack s) None (trace s) = (p, tr')"
    by (cases "run_exits env (exit_stack s) None (trace s)")
  from run_exits_trace [OF re] obtain evs where evs:
    "tr' = trace s @ evs" "released evs = exit_stack s" "acquired evs = []"
    "model_requests evs = []" "tool_invocations evs = []" "printed_lines evs = []"
    "p = None \<longleftrightarrow> exit_errors evs = []"
    by auto
  from assms re have "trace s' = tr'" "exit_stack s' = []" "r = Inr () \<longleftrightarrow> p = None"
    by (auto simp: cleanup_def aclose_def split: option.splits)
  with evs show ?thesis by (intro exI [of _ evs]) simp
qed

subsection \<open>The paths of a run\<close>

lemma workflow_body_cases [consumes 1,
    case_names before_plan plan_failed extract_failed no_tools execute_failed synthesized]:
  assumes body: "workflow_body env q initial_state = (out, s)"
  obtains
    e where "out = Inl e" "model_requests (trace s) = []"
      "tool_invocations (trace s) = []" "printed_lines (trace s) = []"
  | req e where "out = Inl e" "model_requests (trace s) = [(req, Inl e)]"
      "tool_invocations (trace s) = []" "printed_lines (trace s) = []"
  | req planning e where "out = Inl e" "model_requests (trace s) = [(req, Inr planning)]"
      "extract_tool_calls (response_dict planning) = Inl e"
      "tool_invocations (trace s) = []" "printed_lines (trace s) = []"
  | req planning where "model_requests (trace s) = [(req, Inr planning)]"
      "extract_tool_calls (response_dict planning) = Inr []"
      "tool_invocations (trace s) = []"
      "out = Inr () \<longrightarrow> printed_lines (trace s) =
         map ClaudeText (map block_text (filter is_text (map JObj (resp_content planning))))"
      "list_all content_block (map JObj (resp_content planning)) \<longrightarrow> out = Inr ()"
  | req planning calls e where "out = Inl e"
      "model_requests (trace s) = [(req, Inr planning)]"
      "extract_tool_calls (response_dict planning) = Inr calls" "calls \<noteq> []"
      "issued_in_order calls (tool_invocations (trace s))"
      "printed_lines (trace s) = []"
  | tools planning calls blocks res2 where
      "model_requests (trace s) =
         [(call_claude_kwargs [user_message q] (Some tools) 1024, Inr planning),
          (call_claude_kwargs (synthesis_messages q planning blocks) (Some tools) 1024, res2)]"
      "extract_tool_calls (response_dict planning) = Inr calls" "calls \<noteq> []"
      "issued_in_order calls (tool_invocations (trace s))"
      "formatted_batch calls (tool_invocations (trace s)) blocks"
      "case res2 of
         Inl e \<Rightarrow> out = Inl e \<and> printed_lines (trace s) = []
       | Inr synth \<Rightarrow>
           (case final_text_loop [] (map JObj (resp_content synth)) of
              Inl e \<Rightarrow> out = Inl e \<and> printed_lines (trace s) = []
            | Inr t \<Rightarrow> out = Inr () \<and> printed_lines (trace s) = [FinalText t])"
  using body [unfolded workflow_body_def]
proof (cases rule: bindS_cases)
  case (raised e)
  with connect_trace [of env server_path "Inl e" s] show thesis
    by (intro that(1) [of e]) simp_all
next
  case c: (continued init s1)
  note c1 = connect_trace [OF c(1)]
  from c(2) show thesis
  proof (cases rule: bindS_cases)
    case (raised e)
    with list_tools_trace [of env s1 "Inl e" s] c1 show thesis
      by (intro that(1) [of e]) simp_all
  next
    case l: (continued mcp_tools s2)
    note l1 = list_tools_trace [OF l(1)]
    from l(2) show thesis
    proof (cases rule: bindS_liftE_cases)
      case (raised e)
      with l1 c1 show thesis
        by (intro that(1) [of e]) simp_all
    next
      case cv: (continued tools)
      from cv(2) show thesis
      proof (cases rule: bindS_cases)
        case (raised e)
        from raised(1) show thesis
        proof (cases rule: call_claude_cases)
          case (log_failed e')
          with l1 c1 raised(2) show thesis
            by (intro that(1) [of e]) simp_all
        next
          case (requested res)
          with l1 c1 raised(2) show thesis
            by (intro that(2) [of e "call_claude_kwargs
                  [[(''role'', JStr ''user''), (''content'', JStr q)]] (Some tools) 1024"])
               (auto simp: projections_Cons split: sum.splits)
        qed
      next
        case p: (continued planning_response s3)
        from p(1) obtain planning where
          logged: "log_tool_names (Some tools) = Inr ()" and
          s3: "s3 = record_event (MessagesCreate (call_claude_kwargs
                  [[(''role'', JStr ''user''), (''content'', JStr q)]] (Some tools) 1024)
                  (Inr planning)) s2" and
          pr: "planning_response = response_dict planning"
          by (cases rule: call_claude_cases) (auto split: sum.splits)
        from s3 l1 c1 have
          req3: "model_requests (trace s3) =
                   [(call_claude_kwargs [user_message q] (Some tools) 1024, Inr planning)]" and
          inv3: "tool_invocations (trace s3) = []" and
          prt3: "printed_lines (trace s3) = []" and
          sess3: "session s3 = Some ClientSession"
          by (simp_all add: projections_Cons user_message_def)
        from p(2) show thesis
        proof (cases rule: bindS_liftE_cases)
          case (raised e)
          with req3 inv3 prt3 pr show thesis
            by (intro that(3) [of e _ planning]) simp_all
        next
          case ex: (continued calls)
          show thesis
          proof (cases "calls = []")
            case True
            with ex(2) pr
            have "print_text_blocks (map JObj (resp_content planning)) s3 = (out, s)"
              by (simp add: bindS_def liftE_def)
            from print_text_blocks_trace [OF this] obtain ts where
              ts: "trace s = trace s3 @ map (\<lambda>t. Print (ClaudeText t)) ts"
                "out = Inr () \<longrightarrow>
                   ts = map block_text (filter is_text (map JObj (resp_content planning)))"
                "list_all content_block (map JObj (resp_content planning)) \<longrightarrow> out = Inr ()"
              by blast
            have prj: "model_requests (map (\<lambda>t. Print (ClaudeText t)) ts) = []"
              "tool_invocations (map (\<lambda>t. Print (ClaudeText t)) ts) = []"
              "printed_lines (map (\<lambda>t. Print (ClaudeText t)) ts) = map ClaudeText ts"
              by (induction ts) (simp_all add: projections_Cons)
            from ts req3 inv3 prt3 prj ex(1) pr True show thesis
              by (intro that(4) [of _ planning]) auto
          next
            case False
            with ex(2)
            have "bindS (liftE (log_tool_calls calls)) (\<lambda>_.
                    bindS (execute_tool_calls env [] calls) (\<lambda>tool_results.
                    bindS (liftE (dict_getitem planning_response ''content''))
                      (\<lambda>planning_content.
                    bindS (call_claude env
                      [[(''role'', JStr ''user''), (''content'', JStr q)],
                       [(''role'', JStr ''assistant''), (''content'', planning_content)],
                       [(''role'', JStr ''user''), (''content'', JList (map JObj tool_results))]]
                      (Some tools) 1024) (\<lambda>synthesis_response.
                    bindS (liftE (dict_getitem synthesis_response ''content'')) (\<lambda>content.
                    bindS (liftE (py_iter content)) (\<lambda>blocks.
                    bindS (liftE (final_text_loop [] blocks)) (\<lambda>final_text.
                      print_line (FinalText final_text)))))))) s3 = (out, s)"
              by simp
            then show thesis
            proof (cases rule: bindS_liftE_cases)
              case (raised e)
              with req3 inv3 prt3 ex(1) pr False show thesis
                by (intro that(5) [of e _ planning calls]) simp_all
            next
              case logged_calls: (continued u)
              from logged_calls(2) show thesis
              proof (cases rule: bindS_cases)
              case (raised e)
              from execute_tool_calls_trace [OF raised(1)] obtain invs where
                "trace s = trace s3 @ map inv_event invs" "issued_in_order calls invs"
                by auto
              with req3 inv3 prt3 raised(2) ex(1) pr False show thesis
                by (intro that(5) [of e _ planning calls]) simp_all
            next
              case x: (continued blocks s4)
              from execute_tool_calls_trace [OF x(1)] obtain invs where
                invs: "trace s4 = trace s3 @ map inv_event invs" "issued_in_order calls invs"
                "formatted_batch calls invs blocks"
                by auto
              from x(2) pr
              have "bindS (call_claude env (synthesis_messages q planning blocks)
                      (Some tools) 1024) (\<lambda>synthesis_response.
                    bindS (liftE (dict_getitem synthesis_response ''content'')) (\<lambda>content.
                    bindS (liftE (py_iter content)) (\<lambda>blocks.
                    bindS (liftE (final_text_loop [] blocks)) (\<lambda>final_text.
                      print_line (FinalText final_text))))) s4 = (out, s)"
                by (simp add: bindS_def liftE_def synthesis_messages_def)
              then show thesis
              proof (cases rule: bindS_cases)
                case (raised e)
                from raised(1) logged obtain res2 where
                  s: "s = record_event (MessagesCreate (call_claude_kwargs
                        (synthesis_messages q planning blocks) (Some tools) 1024) res2) s4"
                    and res2: "res2 = Inl e"
                  by (cases rule: call_claude_cases) (auto split: sum.splits)
                with invs req3 inv3 prt3 raised(2) ex(1) pr False show thesis
                  by (intro that(6) [of tools planning blocks res2 calls])
                     (simp_all add: projections_Cons)
              next
                case y: (continued synthesis_response s5)
                from y(1) logged obtain synth where
                  s5: "s5 = record_event (MessagesCreate (call_claude_kwargs
                        (synthesis_messages q planning blocks) (Some tools) 1024)
                        (Inr synth)) s4"
                    and sr: "synthesis_response = response_dict synth"
                  by (cases rule: call_claude_cases) (auto split: sum.splits)
                from y(2) sr have fin:
                  "(case final_text_loop [] (map JObj (resp_content synth)) of
                      Inl e \<Rightarrow> out = Inl e \<and> s = s5
                    | Inr t \<Rightarrow> out = Inr () \<and> s = record_event (Print (FinalText t)) s5)"
                  by (auto simp: bindS_def liftE_def print_line_def split: sum.splits)
                with s5 invs req3 inv3 prt3 ex(1) pr False show thesis
                  by (intro that(6) [of tools planning blocks "Inr synth" calls])
                     (auto simp: projections_Cons split: sum.splits)
              qed
              qed
            qed
          qed
        qed
      qed
    qed
  qed
qed

lemma run_poc_workflow_cases [consumes 1, case_names no_api_key ran]:
  assumes "run_poc_workflow env q = (out, s)"
  obtains "api_key env = None \<or> api_key env = Some []" "s = initial_state"
      "out = Inl (ValueError ''ANTHROPIC_API_KEY not found in .env.local'')"
  | out1 s1 c where "workflow_body env q initial_state = (out1, s1)"
      "cleanup env s1 = (c, s)" "out = (case c of Inl e \<Rightarrow> Inl e | Inr _ \<Rightarrow> out1)"
proof (cases "api_key env = None \<or> api_key env = Some []")
  case True
  with assms show thesis by (intro that(1)) (simp_all add: run_poc_workflow_def)
next
  case False
  obtain out1 s1 where b: "workflow_body env q initial_state = (out1, s1)"
    by (cases "workflow_body env q initial_state")
  obtain c s2 where c: "cleanup env s1 = (c, s2)" by (cases "cleanup env s1")
  from assms False b c have "s = s2" "out = (case c of Inl e \<Rightarrow> Inl e | Inr _ \<Rightarrow> out1)"
    by (auto simp: run_poc_workflow_def split: sum.splits)
  with b c show thesis by (intro that(2)) simp_all
qed

subsection \<open>The contexts entered and exited\<close>

lemma unchanged_list_tools: "unchanged lifecycle (list_tools env)"
  by (auto simp: unchanged_def lifecycle_def dest: list_tools_trace)

lemma unchanged_call_tool: "unchanged lifecycle (call_tool env n a)"
  unfolding unchanged_def
proof (intro allI impI)
  fix s r s' assume "call_tool env n a s = (r, s')"
  then show "lifecycle s' = lifecycle s"
    by (cases rule: call_tool_cases) (simp_all add: lifecycle_def projections_Cons)
qed

lemma unchanged_call_claude: "unchanged lifecycle (call_claude env msgs tools mt)"
  unfolding unchanged_def
proof (intro allI impI)
  fix s r s' assume "call_claude env msgs tools mt s = (r, s')"
  then show "lifecycle s' = lifecycle s"
    by (cases rule: call_claude_cases) (simp_all add: lifecycle_def projections_Cons)
qed

lemma unchanged_print_line: "unchanged lifecycle (print_line p)"
  by (simp add: unchanged_def lifecycle_def print_line_def projections_Cons)

lemma unchanged_print_text_blocks: "unchanged lifecycle (print_text_blocks blocks)"
  by (induction blocks)
     (auto intro!: unchanged_bindS unchanged_liftE unchanged_print_line)

lemma unchanged_execute_tool_calls: "unchanged lifecycle (execute_tool_calls env acc calls)"
  by (induction calls arbitrary: acc)
     (auto intro!: unchanged_bindS unchanged_liftE unchanged_call_tool)

lemma workflow_body_lifecycle:
  assumes "workflow_body env q initial_state = (out, s)"
  shows "released (trace s) = [] \<and> exit_stack s = rev (acquired (trace s)) \<and>
         (acquired (trace s) = [] \<or> acquired (trace s) = [StdioClient server_path] \<or>
          acquired (trace s) = [StdioClient server_path, ClientSessionCtx])"
  using assms [unfolded workflow_body_def]
proof (cases rule: bindS_cases)
  case (raised e)
  from connect_trace [OF raised(1)] show ?thesis by simp
next
  case (continued init s1)
  have "lifecycle s = lifecycle s1"
    apply (rule unchanged_bindS_D [OF continued(2), where f = lifecycle])
     apply (rule unchanged_list_tools)
    apply (rule unchanged_bindS)
     apply (rule unchanged_liftE)
    apply (rule unchanged_bindS)
     apply (rule unchanged_call_claude)
    apply (rule unchanged_bindS)
     apply (rule unchanged_liftE)
    apply (rule unchanged_if)
     apply (intro unchanged_bindS unchanged_liftE unchanged_print_text_blocks)
    apply (rule unchanged_bindS)
     apply (rule unchanged_liftE)
    apply (rule unchanged_bindS)
     apply (rule unchanged_execute_tool_calls)
    apply (rule unchanged_bindS)
     apply (rule unchanged_liftE)
    apply (rule unchanged_bindS)
     apply (rule unchanged_call_claude)
    apply (intro unchanged_bindS unchanged_liftE unchanged_print_line)
    done
  with connect_trace [OF continued(1)] show ?thesis
    by (simp add: lifecycle_def)
qed

subsection \<open>The sample runs\<close>

lemma sample_run: "run_poc_workflow sample_env sample_query = (Inr (), sample_final_state)"
  by code_simp

lemma chat_run: "run_poc_workflow chat_env sample_query = (Inr (), chat_final_state)"
  by code_simp

section \<open>The claims\<close>

text \<open>
  Claim C1. When the planning response holds no \<^verbatim>\<open>tool_use\<close> block, the run goes
  from planning straight to its end: the request that returned the planning response is
  the only request sent to the Model Service during the run, no tool is invoked, and,
  the blocks of the response being content blocks, the answer printed is the text of its
  text blocks, in order, and the run ends without an exception unless closing a context
  raises one.
\<close>

theorem no_tool_use_goes_directly_to_done:
  assumes run: "run_poc_workflow env q = (out, s)"
    and plan: "model_requests (trace s) = (req, Inr planning) # later"
    and none: "filter is_tool_use (map JObj (resp_content planning)) = []"
  shows "later = [] \<and> tool_invocations (trace s) = [] \<and>
         (list_all content_block (map JObj (resp_content planning)) \<longrightarrow>
            printed_lines (trace s) =
              map ClaudeText (map block_text (filter is_text (map JObj (resp_content planning))))
            \<and> (exit_errors (trace s) = [] \<longrightarrow> out = Inr ()))"
  using run
proof (cases rule: run_poc_workflow_cases)
  case no_api_key
  with plan show ?thesis by (simp add: initial_state_def)
next
  case (ran out1 s1 c)
  from cleanup_trace [OF ran(2)] obtain evs where evs:
    "trace s = trace s1 @ evs" "model_requests evs = []" "tool_invocations evs = []"
    "printed_lines evs = []" "c = Inr () \<longleftrightarrow> exit_errors evs = []"
    by blast
  from workflow_body_lifecycle [OF ran(1)] have "exit_errors (trace s1) = []"
    by (simp add: released_Nil_exit_errors)
  with evs have fin: "exit_errors (trace s) = [] \<longrightarrow> out = out1"
    using ran(3) by (auto split: sum.splits)
  have no_calls: "\<And>calls. extract_tool_calls (response_dict planning) = Inr calls \<Longrightarrow> calls = []"
    using none
    by (auto simp: extract_tool_calls_def bindE_def dest: extract_loop_no_tool_use)
  from ran(1) show ?thesis
  proof (cases rule: workflow_body_cases)
    case (before_plan e)
    with plan evs show ?thesis by simp
  next
    case (plan_failed req' e)
    with plan evs show ?thesis by simp
  next
    case (extract_failed req' planning' e)
    with plan evs have same: "planning' = planning" "later = []" by simp_all
    have "list_all content_block (map JObj (resp_content planning)) \<longrightarrow> False"
      using extract_tool_calls_ok
              [of "response_dict planning" "map JObj (resp_content planning)"]
            extract_failed(3) same
      by auto
    with extract_failed evs same show ?thesis by auto
  next
    case (no_tools req' planning')
    with plan evs have same: "planning' = planning" "later = []" by simp_all
    with no_tools evs fin show ?thesis by auto
  next
    case (execute_failed req' planning' calls e)
    with plan evs have "planning' = planning" by simp
    with execute_failed no_calls show ?thesis by auto
  next
    case (synthesized tools planning' calls blocks res2)
    with plan evs have "planning' = planning" by simp
    with synthesized no_calls show ?thesis by auto
  qed
qed

theorem no_tool_use_goes_directly_to_done_witness:
  "model_requests (trace chat_final_state) =
     [(call_claude_kwargs [user_message sample_query] (Some sample_claude_tools) 1024,
       Inr sample_chat)] \<and>
   filter is_tool_use (map JObj (resp_content sample_chat)) = [] \<and>
   list_all content_block (map JObj (resp_content sample_chat)) \<and>
   tool_invocations (trace chat_final_state) = [] \<and>
   printed_lines (trace chat_final_state) = [ClaudeText (JStr ''Hello!'')]"
proof -
  have plan: "model_requests (trace chat_final_state) =
     (call_claude_kwargs [user_message sample_query] (Some sample_claude_tools) 1024,
      Inr sample_chat) # []"
    by code_simp
  have none: "filter is_tool_use (map JObj (resp_content sample_chat)) = []"
    by code_simp
  have wf: "list_all content_block (map JObj (resp_content sample_chat))"
    by code_simp
  have texts: "map ClaudeText (map block_text
                 (filter is_text (map JObj (resp_content sample_chat))))
               = [ClaudeText (JStr ''Hello!'')]"
    by code_simp
  from no_tool_use_goes_directly_to_done [OF chat_run plan none] wf texts plan none
  show ?thesis by simp
qed

text \<open>
  Claim C2. In every run that sends a second request to the Model Service, that
  request is the last one and carries exactly three messages: the user message with the
  query, an assistant message whose content is the content of the planning response as
  it was received, and one user message whose content is the list of the tool-result
  blocks, one per extracted call, in the order of the calls, each the formatted result of
  the invocation of its call. When the synthesis response arrives and its blocks are
  content blocks, the final text printed is the concatenation, in order, of the texts of
  its text blocks.
\<close>

theorem synthesis_conversation_and_final_answer:
  assumes run: "run_poc_workflow env q = (out, s)"
    and two: "model_requests (trace s) = first # (req2, res2) # later"
  shows "\<exists>req1 planning calls blocks.
           first = (req1, Inr planning) \<and> later = [] \<and>
           dict_getitem req2 ''messages'' =
             Inr (JList
               [JObj [(''role'', JStr ''user''), (''content'', JStr q)],
                JObj [(''role'', JStr ''assistant''),
                      (''content'', JList (map JObj (resp_content planning)))],
                JObj [(''role'', JStr ''user''), (''content'', JList (map JObj blocks))]]) \<and>
           dict_getitem (response_dict planning) ''content''
             = Inr (JList (map JObj (resp_content planning))) \<and>
           extract_tool_calls (response_dict planning) = Inr calls \<and> calls \<noteq> [] \<and>
           formatted_batch calls (tool_invocations (trace s)) blocks \<and>
           (\<forall>synth. res2 = Inr synth \<longrightarrow>
              list_all content_block (map JObj (resp_content synth)) \<longrightarrow>
              printed_lines (trace s) =
                [FinalText (concat (map text_value
                   (filter is_text (map JObj (resp_content synth)))))])"
  using run
proof (cases rule: run_poc_workflow_cases)
  case no_api_key
  with two show ?thesis by (simp add: initial_state_def)
next
  case (ran out1 s1 c)
  from cleanup_trace [OF ran(2)] obtain evs where evs:
    "trace s = trace s1 @ evs" "model_requests evs = []" "tool_invocations evs = []"
    "printed_lines evs = []"
    by blast
  from ran(1) show ?thesis
  proof (cases rule: workflow_body_cases)
    case (synthesized tools planning calls blocks res2')
    from synthesized(1) two evs have eqs:
      "first = (call_claude_kwargs [user_message q] (Some tools) 1024, Inr planning)"
      "req2 = call_claude_kwargs (synthesis_messages q planning blocks) (Some tools) 1024"
      "res2' = res2" "later = []"
      by simp_all
    have fin: "\<forall>synth. res2 = Inr synth \<longrightarrow>
              list_all content_block (map JObj (resp_content synth)) \<longrightarrow>
              printed_lines (trace s) =
                [FinalText (concat (map text_value
                   (filter is_text (map JObj (resp_content synth)))))]"
    proof (intro allI impI)
      fix synth
      assume "res2 = Inr synth" and wf: "list_all content_block (map JObj (resp_content synth))"
      with synthesized(6) eqs final_text_loop_ok [OF wf, of "[]"]
      have "printed_lines (trace s1) =
              [FinalText (concat (map text_value (filter is_text (map JObj (resp_content synth)))))]"
        by simp
      with evs show "printed_lines (trace s) =
              [FinalText (concat (map text_value (filter is_text (map JObj (resp_content synth)))))]"
        by simp
    qed
    from eqs synthesized(2,3,5) evs fin show ?thesis
      by (intro exI [of _ "call_claude_kwargs [user_message q] (Some tools) 1024"]
            exI [of _ planning] exI [of _ calls] exI [of _ blocks])
         (simp add: synthesis_messages_def)
  qed (use two evs in simp_all)
qed

theorem synthesis_conversation_and_final_answer_witness:
  "model_requests (trace sample_final_state) =
     [(call_claude_kwargs [user_message sample_query] (Some sample_claude_tools) 1024,
       Inr sample_planning),
      (call_claude_kwargs (synthesis_messages sample_query sample_planning sample_tool_results)
         (Some sample_claude_tools) 1024,
       Inr sample_synthesis)] \<and>
   list_all content_block (map JObj (resp_content sample_synthesis)) \<and>
   printed_lines (trace sample_final_state) =
     [FinalText ''42 + 8 = 50. The weather lookup failed.'']"
proof -
  have two: "model_requests (trace sample_final_state) =
     (call_claude_kwargs [user_message sample_query] (Some sample_claude_tools) 1024,
      Inr sample_planning) #
     (call_claude_kwargs (synthesis_messages sample_query sample_planning sample_tool_results)
        (Some sample_claude_tools) 1024,
      Inr sample_synthesis) # []"
    by code_simp
  have wf: "list_all content_block (map JObj (resp_content sample_synthesis))"
    by code_simp
  have final: "concat (map text_value (filter is_text (map JObj (resp_content sample_synthesis))))
                = ''42 + 8 = 50. The weather lookup failed.''"
    by code_simp
  from synthesis_conversation_and_final_answer [OF sample_run two] wf
  have "printed_lines (trace sample_final_state) =
          [FinalText (concat (map text_value
             (filter is_text (map JObj (resp_content sample_synthesis)))))]"
    by blast
  with two wf final show ?thesis by simp
qed

text \<open>
  Claim C3 fails on the code. The text part holds: the block carries the call id as
  \<^verbatim>\<open>tool_use_id\<close> and, when the text entries of the result are not all empty, their
  concatenation as content (lemma \<open>format_tool_result_ok\<close>). The fallback does not:
  \<^verbatim>\<open>json.dumps(tool_result)\<close> raises \<^verbatim>\<open>TypeError\<close> on a result whose dump holds a
  value that is not JSON, so that no block is returned. Such is the result of a tool
  that answers with an embedded resource and no text: a capability result, with no text
  to concatenate, on which the function raises.
\<close>

theorem format_result_fallback_raises_on_resource:
  "capability_result resource_result \<and>
   result_text resource_result = [] \<and>
   format_tool_result_for_claude (JStr ''toolu_01'') resource_result = Inl TypeError"
  by code_simp

text \<open>
  Claim C4 fails on the code. The number, the names and the order of the tools are as
  claimed, and a descriptor from which the key is absent gets the default (lemma
  \<open>convert_loop_ok\<close>). But \<^verbatim>\<open>.get("description", "")\<close> gives the default only for an
  absent key, and the descriptors \<^verbatim>\<open>list_tools\<close> hands over always carry the key: a
  tool without a description has \<^verbatim>\<open>None\<close> there, and \<^verbatim>\<open>None\<close>, not the empty string,
  is what the translated tool gets.
\<close>

theorem translate_keeps_none_description:
  "has_name undescribed_tool \<and>
   dict_getitem undescribed_tool ''description'' = Inr JNull \<and>
   convert_mcp_tools_to_claude_format [undescribed_tool] =
     Inr [[(''name'', JStr ''ping''),
           (''description'', JNull),
           (''input_schema'', JObj [(''type'', JStr ''object''), (''properties'', JObj [])])]]"
  by code_simp

text \<open>
  Claim C5. For every response whose content is a list of content blocks,
  \<^verbatim>\<open>extract_tool_calls\<close> returns one call per \<^verbatim>\<open>tool_use\<close> block, in the order of
  the blocks, each with the id, the name and the input of its block; a response without
  \<^verbatim>\<open>tool_use\<close> blocks gives the empty list.
\<close>

theorem extract_calls_projects_tool_use_blocks:
  assumes "dict_getitem resp ''content'' = Inr (JList blocks)"
    and "list_all content_block blocks"
  shows "\<exists>calls. extract_tool_calls resp = Inr calls \<and>
           list_all2 carries (filter is_tool_use blocks) calls \<and>
           length calls = length (filter is_tool_use blocks) \<and>
           (filter is_tool_use blocks = [] \<longrightarrow> calls = [])"
  using extract_tool_calls_ok [OF assms] .

theorem extract_calls_projects_tool_use_blocks_witness:
  "dict_getitem (response_dict sample_planning) ''content''
      = Inr (JList (map JObj (resp_content sample_planning))) \<and>
   list_all content_block (map JObj (resp_content sample_planning)) \<and>
   (\<exists>calls. extract_tool_calls (response_dict sample_planning) = Inr calls \<and>
      length calls = 2)"
proof -
  have h1: "dict_getitem (response_dict sample_planning) ''content''
      = Inr (JList (map JObj (resp_content sample_planning)))" by code_simp
  have h2: "list_all content_block (map JObj (resp_content sample_planning))" by code_simp
  have n: "length (filter is_tool_use (map JObj (resp_content sample_planning))) = 2"
    by code_simp
  from extract_calls_projects_tool_use_blocks [OF h1 h2] n h1 h2 show ?thesis by auto
qed

text \<open>
  Claim C6, as amended. While the client holds no session (\<^verbatim>\<open>connect\<close> has not yet
  created one), \<^verbatim>\<open>list_tools\<close> and \<^verbatim>\<open>call_tool\<close> raise
  \<^verbatim>\<open>RuntimeError("Not connected to a server")\<close> and send nothing: the state, and with
  it the trace, is unchanged.
\<close>

theorem not_connected_guard:
  assumes "session s = None"
  shows "list_tools env s = (Inl (RuntimeError ''Not connected to a server''), s) \<and>
         call_tool env name arguments s = (Inl (RuntimeError ''Not connected to a server''), s)"
  using assms by (simp add: list_tools_def call_tool_def)

theorem not_connected_guard_witness:
  "session initial_state = None \<and>
   list_tools sample_env initial_state
     = (Inl (RuntimeError ''Not connected to a server''), initial_state) \<and>
   call_tool sample_env (JStr ''calculate'') (JObj []) initial_state
     = (Inl (RuntimeError ''Not connected to a server''), initial_state)"
proof -
  have h: "session initial_state = None" by (simp add: initial_state_def)
  from not_connected_guard [OF h, of sample_env "JStr ''calculate''" "JObj []"] h
  show ?thesis by simp
qed

text \<open>
  Claim C6 as stated fails: the guard of \<^verbatim>\<open>list_tools\<close> and \<^verbatim>\<open>call_tool\<close> tests
  that a session exists, and \<^verbatim>\<open>connect\<close> stores the session before the handshake.
  After a handshake that failed, both calls pass the guard and send their request.
\<close>

theorem ready_guard_passes_after_failed_initialize:
  "connect failed_initialize_env server_path initial_state
     = (Inl (ExternalError ''connection closed''), state_after_failed_initialize) \<and>
   list_tools failed_initialize_env state_after_failed_initialize
     = (Inr sample_tools,
        record_event (ListTools (Inr sample_tools)) state_after_failed_initialize) \<and>
   call_tool failed_initialize_env (JStr ''calculate'') (JObj []) state_after_failed_initialize
     = (Inr calculate_result,
        record_event (CallTool (JStr ''calculate'') (JObj []) (Inr calculate_result))
          state_after_failed_initialize) \<and>
   fst (list_tools failed_initialize_env state_after_failed_initialize)
     \<noteq> Inl (RuntimeError ''Not connected to a server'') \<and>
   trace (snd (list_tools failed_initialize_env state_after_failed_initialize))
     \<noteq> trace state_after_failed_initialize"
  by code_simp

text \<open>
  Claim C7 fails on the code. The loop never reads \<^verbatim>\<open>isError\<close>, but \<^verbatim>\<open>call_tool\<close>
  dumps every result for its log line before returning it, and the dump raises
  \<^verbatim>\<open>TypeError\<close> on a result that holds a value that is not JSON. In the run below the
  planning response selects two tools; the first invocation comes back flagged
  \<^verbatim>\<open>isError\<close>, with an embedded resource. The run ends with \<^verbatim>\<open>TypeError\<close>: the second
  tool is never invoked, no second request is sent to the Model Service, and nothing is
  printed.
\<close>

theorem resource_error_result_aborts_batch:
  "is_error resource_result \<and> capability_result resource_result \<and>
   extract_tool_calls (response_dict sample_planning) =
     Inr [[(''id'', JStr ''toolu_01''), (''name'', JStr ''get_weather''),
           (''input'', JObj [(''town'', JStr ''Paris'')])],
          [(''id'', JStr ''toolu_02''), (''name'', JStr ''calculate''),
           (''input'', JObj [(''expression'', JStr ''42 + 8'')])]] \<and>
   fst (run_poc_workflow resource_env sample_query) = Inl TypeError \<and>
   tool_invocations (trace (snd (run_poc_workflow resource_env sample_query))) =
     [(JStr ''get_weather'', JObj [(''town'', JStr ''Paris'')], Inr resource_result)] \<and>
   model_requests (trace (snd (run_poc_workflow resource_env sample_query))) =
     [(call_claude_kwargs [user_message sample_query] (Some sample_claude_tools) 1024,
       Inr sample_planning)] \<and>
   printed_lines (trace (snd (run_poc_workflow resource_env sample_query))) = []"
  by code_simp

text \<open>
  Claim C8. In every run, the tool invocations made are those of the first
  extracted calls, one each and in the order of the calls, and an invocation is followed
  by the next one only after it returned a result and that result was formatted; when the
  second request is sent, its tool-result blocks are the formatted results in the order
  of the calls.
\<close>

theorem tool_calls_issued_sequentially_in_call_order:
  assumes run: "run_poc_workflow env q = (out, s)"
    and plan: "model_requests (trace s) = (req1, Inr planning) # later"
    and calls: "extract_tool_calls (response_dict planning) = Inr calls"
  shows "issued_in_order calls (tool_invocations (trace s)) \<and>
         (\<forall>req2 res2. later = [(req2, res2)] \<longrightarrow>
            (\<exists>blocks. formatted_batch calls (tool_invocations (trace s)) blocks \<and>
               dict_getitem req2 ''messages'' =
                 Inr (JList
                   [JObj [(''role'', JStr ''user''), (''content'', JStr q)],
                    JObj [(''role'', JStr ''assistant''),
                          (''content'', JList (map JObj (resp_content planning)))],
                    JObj [(''role'', JStr ''user''), (''content'', JList (map JObj blocks))]])))"
  using run
proof (cases rule: run_poc_workflow_cases)
  case no_api_key
  with plan show ?thesis by (simp add: initial_state_def)
next
  case (ran out1 s1 c)
  from cleanup_trace [OF ran(2)] obtain evs where evs:
    "trace s = trace s1 @ evs" "model_requests evs = []" "tool_invocations evs = []"
    by blast
  from ran(1) show ?thesis
  proof (cases rule: workflow_body_cases)
    case (before_plan e)
    with plan evs show ?thesis by simp
  next
    case (plan_failed req' e)
    with plan evs show ?thesis by simp
  next
    case (extract_failed req' planning' e)
    with plan evs calls show ?thesis by simp
  next
    case (no_tools req' planning')
    with plan evs calls show ?thesis by simp
  next
    case (execute_failed req' planning' calls' e)
    with plan evs calls show ?thesis by simp
  next
    case (synthesized tools planning' calls' blocks res2)
    from synthesized(1) plan evs have eqs: "planning' = planning"
      "later = [(call_claude_kwargs (synthesis_messages q planning blocks) (Some tools) 1024, res2)]"
      by auto
    with synthesized(2) calls have c: "calls' = calls" by simp
    from synthesized(4,5) c evs eqs show ?thesis
      by (auto simp: synthesis_messages_def intro!: exI [of _ blocks])
  qed
qed

theorem tool_calls_issued_sequentially_in_call_order_witness:
  "issued_in_order
     [[(''id'', JStr ''toolu_01''), (''name'', JStr ''get_weather''),
       (''input'', JObj [(''town'', JStr ''Paris'')])],
      [(''id'', JStr ''toolu_02''), (''name'', JStr ''calculate''),
       (''input'', JObj [(''expression'', JStr ''42 + 8'')])]]
     (tool_invocations (trace sample_final_state)) \<and>
   map fst (tool_invocations (trace sample_final_state))
     = [JStr ''get_weather'', JStr ''calculate'']"
proof -
  have plan: "model_requests (trace sample_final_state) =
     (call_claude_kwargs [user_message sample_query] (Some sample_claude_tools) 1024,
      Inr sample_planning) #
     [(call_claude_kwargs (synthesis_messages sample_query sample_planning sample_tool_results)
         (Some sample_claude_tools) 1024,
       Inr sample_synthesis)]"
    by code_simp
  have calls: "extract_tool_calls (response_dict sample_planning) =
     Inr [[(''id'', JStr ''toolu_01''), (''name'', JStr ''get_weather''),
           (''input'', JObj [(''town'', JStr ''Paris'')])],
          [(''id'', JStr ''toolu_02''), (''name'', JStr ''calculate''),
           (''input'', JObj [(''expression'', JStr ''42 + 8'')])]]"
    by code_simp
  have names: "map fst (tool_invocations (trace sample_final_state))
     = [JStr ''get_weather'', JStr ''calculate'']"
    by code_simp
  from tool_calls_issued_sequentially_in_call_order [OF sample_run plan calls] names
  show ?thesis by simp
qed

text \<open>
  Claim C9. At the end of every run, however it ended, the contexts exited are
  exactly the contexts entered, in reverse order, and the exit stack is empty; the
  transport is entered at most once, and when it was entered it is exited exactly once.
  The exits come at the close: the trace is the events of the body, none of them an exit,
  followed by the exits, with no request and no invocation among them.
\<close>

theorem transport_released_exactly_once:
  assumes run: "run_poc_workflow env q = (out, s)"
  shows "released (trace s) = rev (acquired (trace s)) \<and> exit_stack s = [] \<and>
         count_list (acquired (trace s)) (StdioClient server_path) \<le> 1 \<and>
         (StdioClient server_path \<in> set (acquired (trace s)) \<longrightarrow>
            count_list (released (trace s)) (StdioClient server_path) = 1) \<and>
         (\<exists>body closing. trace s = body @ closing \<and> released body = [] \<and>
            released closing = rev (acquired body) \<and> acquired closing = [] \<and>
            model_requests closing = [] \<and> tool_invocations closing = [])"
  using run
proof (cases rule: run_poc_workflow_cases)
  case no_api_key
  then show ?thesis by (simp add: initial_state_def)
next
  case (ran out1 s1 c)
  from cleanup_trace [OF ran(2)] obtain evs where evs:
    "trace s = trace s1 @ evs" "released evs = exit_stack s1" "acquired evs = []"
    "model_requests evs = []" "tool_invocations evs = []" "exit_stack s = []"
    by blast
  note body = workflow_body_lifecycle [OF ran(1)]
  from body evs have closing:
    "\<exists>body closing. trace s = body @ closing \<and> released body = [] \<and>
       released closing = rev (acquired body) \<and> acquired closing = [] \<and>
       model_requests closing = [] \<and> tool_invocations closing = []"
    by (intro exI [of _ "trace s1"] exI [of _ evs]) simp
  from body evs have
    "released (trace s) = rev (acquired (trace s))" "exit_stack s = []"
    "count_list (acquired (trace s)) (StdioClient server_path) \<le> 1"
    "StdioClient server_path \<in> set (acquired (trace s)) \<longrightarrow>
       count_list (released (trace s)) (StdioClient server_path) = 1"
    by auto
  with closing show ?thesis by blast
qed

theorem transport_released_exactly_once_witness:
  "run_poc_workflow failed_initialize_env sample_query =
     (Inl (ExternalError ''connection closed''),
      snd (run_poc_workflow failed_initialize_env sample_query)) \<and>
   StdioClient server_path
     \<in> set (acquired (trace (snd (run_poc_workflow failed_initialize_env sample_query)))) \<and>
   count_list (released (trace (snd (run_poc_workflow failed_initialize_env sample_query))))
     (StdioClient server_path) = 1"
proof -
  have run: "run_poc_workflow failed_initialize_env sample_query =
     (Inl (ExternalError ''connection closed''),
      snd (run_poc_workflow failed_initialize_env sample_query))"
    by code_simp
  have acq: "StdioClient server_path
     \<in> set (acquired (trace (snd (run_poc_workflow failed_initialize_env sample_query))))"
    by code_simp
  from transport_released_exactly_once [OF run]
  have "StdioClient server_path
          \<in> set (acquired (trace (snd (run_poc_workflow failed_initialize_env sample_query))))
        \<longrightarrow>
        count_list (released (trace (snd (run_poc_workflow failed_initialize_env sample_query))))
          (StdioClient server_path) = 1"
    by blast
  with run acq show ?thesis by blast
qed

text \<open>
  Claim C10. \<^verbatim>\<open>call_claude\<close> builds the same request for an empty list of tools as
  for no list of tools: the request has no \<^verbatim>\<open>tools\<close> field, and the whole call behaves
  the same in both cases.
\<close>

theorem empty_tools_like_no_tools:
  "call_claude_kwargs messages (Some []) max_tokens = call_claude_kwargs messages None max_tokens
   \<and> map_of (call_claude_kwargs messages (Some []) max_tokens) ''tools'' = None
   \<and> call_claude env messages (Some []) max_tokens = call_claude env messages None max_tokens"
  by (simp add: call_claude_kwargs_def call_claude_def log_tool_names_def)

theorem empty_tools_like_no_tools_witness:
  "call_claude_kwargs [user_message sample_query] (Some []) 1024
     = [(''model'', JStr model), (''max_tokens'', JInt 1024),
        (''messages'', JList [JObj (user_message sample_query)])] \<and>
   call_claude_kwargs [user_message sample_query] None 1024
     = [(''model'', JStr model), (''max_tokens'', JInt 1024),
        (''messages'', JList [JObj (user_message sample_query)])]"
  using empty_tools_like_no_tools [of "[user_message sample_query]" 1024 sample_env]
  by (simp add: call_claude_kwargs_def)

end
